theory Spec2Isabelle
  imports Main
begin

section \<open>Data model\<close>

text \<open>
  The application keeps three document collections (Photo, Album, User), one object-storage
  bucket, a directory of uploaded files (the local-storage variant of the photo routes) and
  an append-only activity table. An ObjectId is modelled as a natural number; ids that
  arrive in a request body or path are taken to be well-formed ObjectIds in canonical form,
  so that comparison of an id with its string form is comparison of the ids.
  A field that may be absent or null in a document is an \<open>option\<close>.
  The document store is taken to be reachable: \<open>save\<close> fails only on a document that
  the schema rejects or on an id that is taken, and the other calls do not fail. A request
  is modelled after the authentication middleware, with the id of the authenticated user.
\<close>

type_synonym oid = nat
type_synonym bytes = "nat list"

text \<open>
  The text of a title or a description is a JavaScript string, kept as the list of its
  UTF-16 code units, so that \<open>length\<close> is the \<open>length\<close> the schemas and validators
  count. Keys, file names, mimetypes and messages are kept as byte strings.
  \<open>js\<close> is the text of an ASCII literal.
\<close>

type_synonym jstring = "nat list"

definition js :: "string \<Rightarrow> jstring" where
  "js s = map of_char s"

datatype processing_status = Pending | Processing | Completed | Failed

text \<open>The Photo schema (models/Photo.js); the nested metadata and the timestamps are left out.\<close>

record photo =
  title :: jstring
  description :: jstring
  filename :: string
  originalName :: string
  mimetype :: string
  size_p :: nat
  thumbnailPath :: "string option"
  s3Key :: "string option"
  s3Location :: "string option"
  thumbnailS3Key :: "string option"
  processingStatus :: processing_status
  processingError :: "string option"
  uploadedBy :: oid
  albums :: "oid list"
  views :: nat

text \<open>The Album schema (models/Album.js).\<close>

record album =
  a_title :: jstring
  a_description :: jstring
  createdBy :: oid
  photos :: "oid list"
  coverPhoto :: "oid option"

record activity_item =
  userId :: oid
  activity :: string
  act_photoId :: oid

record state =
  Photo :: "oid \<rightharpoonup> photo"
  Album :: "oid \<rightharpoonup> album"
  User :: "oid \<rightharpoonup> string"
  s3 :: "string \<rightharpoonup> bytes"
  disk :: "string \<rightharpoonup> bytes"
  activities :: "activity_item list"

text \<open>A response is the HTTP status with the JSON body.\<close>

datatype body =
    Message string
  | Errors "string list"
  | Photo_created oid jstring jstring "string option" "string option"
  | Photo_created_local oid jstring jstring "string option" string
  | Photo_doc oid jstring jstring "string option" "string option" string
  | Reprocessed "string option"
  | Album_created oid jstring jstring nat "string option" string

type_synonym response = "nat \<times> body"

section \<open>Strings\<close>

text \<open>
  \<open>trim\<close> removes leading and trailing white space, as the \<open>trim\<close> sanitizer of the
  request validators and the \<open>trim: true\<close> setter of the schemas do. White space is
  what JavaScript's \<open>\s\<close> and \<open>String.prototype.trim\<close> take for it: tab, line feed,
  vertical tab, form feed, carriage return, space, U+00A0, U+1680, U+2000 to U+200A,
  U+2028, U+2029, U+202F, U+205F, U+3000 and U+FEFF.
\<close>

definition is_space :: "nat \<Rightarrow> bool" where
  "is_space c =
     (c \<in> set [0x09, 0x0A, 0x0B, 0x0C, 0x0D, 0x20, 0xA0, 0x1680, 0x2028, 0x2029, 0x202F,
                0x205F, 0x3000, 0xFEFF]
      \<or> (0x2000 \<le> c \<and> c \<le> 0x200A))"

definition trim :: "jstring \<Rightarrow> jstring" where
  "trim s = rev (dropWhile is_space (rev (dropWhile is_space s)))"

text \<open>\<open>s.startsWith(p)\<close>.\<close>

definition startsWith :: "string \<Rightarrow> string \<Rightarrow> bool" where
  "startsWith s p = (take (length p) s = p)"

text \<open>\<open>s.split(c)\<close> for a one-character separator, and \<open>parts.join(sep)\<close>.\<close>

fun split :: "char \<Rightarrow> string \<Rightarrow> string list" where
  "split c [] = [[]]"
| "split c (x # xs) =
     (if x = c then [] # split c xs
      else (case split c xs of [] \<Rightarrow> [[x]] | y # ys \<Rightarrow> (x # y) # ys))"

fun join :: "string \<Rightarrow> string list \<Rightarrow> string" where
  "join sep [] = []"
| "join sep [p] = p"
| "join sep (p # q # ps) = p @ sep @ join sep (q # ps)"

section \<open>Album routes (routes/albums.js)\<close>

text \<open>
  \<open>Photo.find({_id: {$in: photoIds}, uploadedBy: uid})\<close>: the documents of the collection
  whose id is among \<open>photoIds\<close> and whose owner is \<open>uid\<close>, each document once. The
  collection is a map, so the matching documents are enumerated through the ids asked for.
\<close>

definition find_owned :: "state \<Rightarrow> oid list \<Rightarrow> oid \<Rightarrow> photo list" where
  "find_owned st photoIds uid =
     List.map_filter
       (\<lambda>i. case Photo st i of
               None \<Rightarrow> None
             | Some p \<Rightarrow> if uploadedBy p = uid then Some p else None)
       (remdups photoIds)"

text \<open>\<open>Photo.updateMany({_id: {$in: ids}}, {$push: {albums: aid}})\<close>\<close>

definition updateMany_push :: "state \<Rightarrow> oid list \<Rightarrow> oid \<Rightarrow> state" where
  "updateMany_push st ids aid =
     st\<lparr>Photo := (\<lambda>i. if i \<in> set ids
                       then map_option (\<lambda>p. p\<lparr>albums := albums p @ [aid]\<rparr>) (Photo st i)
                       else Photo st i)\<rparr>"

text \<open>\<open>Photo.updateMany({_id: {$in: ids}}, {$pull: {albums: aid}})\<close>\<close>

definition updateMany_pull :: "state \<Rightarrow> oid list \<Rightarrow> oid \<Rightarrow> state" where
  "updateMany_pull st ids aid =
     st\<lparr>Photo := (\<lambda>i. if i \<in> set ids
                       then map_option (\<lambda>p. p\<lparr>albums := filter (\<lambda>a. a \<noteq> aid) (albums p)\<rparr>) (Photo st i)
                       else Photo st i)\<rparr>"

text \<open>
  The validator chain \<open>body('title').isLength({ min: 1 }).trim()\<close> runs in the order it is
  written: the length check sees the value as sent (an absent title counts as the empty
  string), and the value is trimmed afterwards.
\<close>

definition title_errors :: "jstring \<Rightarrow> string list" where
  "title_errors t = (if length t \<ge> 1 then [] else [''Title is required''])"

text \<open>
  Schema validation at \<open>album.save()\<close>: the title (a required string, so not the empty
  one) has at most 100 characters, the description at most 500. The schema's setters have
  trimmed both when the document was built.
\<close>

definition album_valid :: "album \<Rightarrow> bool" where
  "album_valid a =
     (a_title a \<noteq> [] \<and> length (a_title a) \<le> 100 \<and> length (a_description a) \<le> 500)"

record create_album_req =
  ca_title :: jstring
  ca_description :: "jstring option"
  ca_photoIds :: "oid list option"

text \<open>
  POST /create. \<open>uid\<close> is the authenticated user, \<open>new_id\<close> the ObjectId that
  \<open>new Album\<close> generates; an insert under an id already in the collection is refused by
  the store, and so is a document that fails schema validation: \<open>save\<close> throws and the
  handler answers 500.
\<close>

definition create_album :: "state \<Rightarrow> oid \<Rightarrow> oid \<Rightarrow> create_album_req \<Rightarrow> response \<times> state" where
  "create_album st uid new_id req =
     (if title_errors (ca_title req) \<noteq> [] then ((400, Errors (title_errors (ca_title req))), st)
      else
        let title' = trim (ca_title req);
            description' = map_option trim (ca_description req);
            photoIds = ca_photoIds req;
            nonempty = (case photoIds of None \<Rightarrow> False | Some ids \<Rightarrow> length ids > 0)
        in
        if nonempty \<and> length (find_owned st (the photoIds) uid) \<noteq> length (the photoIds)
        then ((400, Message ''Some photos not found or not owned by user''), st)
        else
          let ids = (case photoIds of None \<Rightarrow> [] | Some ids \<Rightarrow> ids);
              alb = \<lparr>a_title = trim title',
                     a_description = trim (case description' of None \<Rightarrow> [] | Some d \<Rightarrow> d),
                     createdBy = uid,
                     photos = ids,
                     coverPhoto = (if nonempty then Some (hd ids) else None)\<rparr>
          in
          if \<not> album_valid alb \<or> Album st new_id \<noteq> None
          then ((500, Message ''Server error''), st)
          else
            let st1 = st\<lparr>Album := (Album st)(new_id \<mapsto> alb)\<rparr>;
                st2 = (if nonempty then updateMany_push st1 ids new_id else st1)
            in
            (case User st2 uid of
               None \<Rightarrow> ((500, Message ''Server error''), st2)
             | Some username \<Rightarrow>
                 ((201, Album_created new_id (a_title alb) (a_description alb)
                          (length (filter (\<lambda>i. Photo st2 i \<noteq> None) ids))
                          (case coverPhoto alb of
                             None \<Rightarrow> None
                           | Some c \<Rightarrow> (case Photo st2 c of
                                          None \<Rightarrow> None
                                        | Some p \<Rightarrow> (case thumbnailPath p of
                                                       None \<Rightarrow> None
                                                     | Some t \<Rightarrow> if t = [] then None else Some t)))
                          username), st2)))"

text \<open>POST /:id/add-photos. \<open>photoIds = None\<close> is a body whose \<open>photoIds\<close> is not an array.\<close>

definition add_photos :: "state \<Rightarrow> oid \<Rightarrow> oid \<Rightarrow> oid list option \<Rightarrow> response \<times> state" where
  "add_photos st uid aid photoIds_opt =
     (case photoIds_opt of
        None \<Rightarrow> ((400, Errors [''Photo IDs must be an array'']), st)
      | Some photoIds \<Rightarrow>
        (case Album st aid of
           None \<Rightarrow> ((404, Message ''Album not found''), st)
         | Some alb \<Rightarrow>
             if createdBy alb \<noteq> uid
             then ((403, Message ''Not authorized to modify this album''), st)
             else if length (find_owned st photoIds uid) \<noteq> length photoIds
             then ((400, Message ''Some photos not found or not owned by user''), st)
             else
               let newPhotoIds = filter (\<lambda>i. i \<notin> set (photos alb)) photoIds;
                   alb1 = alb\<lparr>photos := photos alb @ newPhotoIds\<rparr>;
                   alb2 = (if coverPhoto alb1 = None \<and> length newPhotoIds > 0
                           then alb1\<lparr>coverPhoto := Some (hd newPhotoIds)\<rparr> else alb1);
                   st1 = st\<lparr>Album := (Album st)(aid \<mapsto> alb2)\<rparr>;
                   st2 = updateMany_push st1 newPhotoIds aid
               in ((200, Message ''Photos added to album successfully''), st2)))"

text \<open>POST /:id/remove-photos.\<close>

definition remove_photos :: "state \<Rightarrow> oid \<Rightarrow> oid \<Rightarrow> oid list option \<Rightarrow> response \<times> state" where
  "remove_photos st uid aid photoIds_opt =
     (case photoIds_opt of
        None \<Rightarrow> ((400, Errors [''Photo IDs must be an array'']), st)
      | Some photoIds \<Rightarrow>
        (case Album st aid of
           None \<Rightarrow> ((404, Message ''Album not found''), st)
         | Some alb \<Rightarrow>
             if createdBy alb \<noteq> uid
             then ((403, Message ''Not authorized to modify this album''), st)
             else
               let alb1 = alb\<lparr>photos := filter (\<lambda>photoId. photoId \<notin> set photoIds) (photos alb)\<rparr>;
                   alb2 = (case coverPhoto alb1 of
                             None \<Rightarrow> alb1
                           | Some c \<Rightarrow>
                               if c \<in> set photoIds
                               then alb1\<lparr>coverPhoto :=
                                      (if length (photos alb1) > 0 then Some (hd (photos alb1)) else None)\<rparr>
                               else alb1);
                   st1 = st\<lparr>Album := (Album st)(aid \<mapsto> alb2)\<rparr>;
                   st2 = updateMany_pull st1 photoIds aid
               in ((200, Message ''Photos removed from album successfully''), st2)))"

text \<open>DELETE /:id.\<close>

definition delete_album :: "state \<Rightarrow> oid \<Rightarrow> oid \<Rightarrow> response \<times> state" where
  "delete_album st uid aid =
     (case Album st aid of
        None \<Rightarrow> ((404, Message ''Album not found''), st)
      | Some alb \<Rightarrow>
          if createdBy alb \<noteq> uid
          then ((403, Message ''Not authorized to delete this album''), st)
          else
            let st1 = updateMany_pull st (photos alb) aid;
                st2 = st1\<lparr>Album := (Album st1)(aid := None)\<rparr>
            in ((200, Message ''Album deleted successfully''), st2))"

text \<open>A photo id resolves to a photo owned by the requester.\<close>

definition owns :: "state \<Rightarrow> oid \<Rightarrow> oid \<Rightarrow> bool" where
  "owns st uid i = (case Photo st i of None \<Rightarrow> False | Some p \<Rightarrow> uploadedBy p = uid)"

section \<open>Image processing function (lambda/imageProcessor)\<close>

record dims =
  width :: nat
  height :: nat

text \<open>
  The \<open>options\<close> object of an event; every key may be absent. The \<open>watermark\<close> and
  \<open>filters\<close> keys only lead to a log line and are left out.
\<close>

record options =
  generateThumbnail :: "bool option"
  thumbnailSize :: "dims option"
  quality :: "nat option"
  format :: "string option"
  async :: "bool option"

record lambda_event =
  imageKey :: "string option"
  bucket :: "string option"
  options :: "options option"

text \<open>JavaScript truthiness of a string that may be absent.\<close>

definition truthy :: "string option \<Rightarrow> bool" where
  "truthy s = (case s of None \<Rightarrow> False | Some v \<Rightarrow> v \<noteq> [])"

text \<open>The calls made on a \<open>sharp\<close> instance, in order.\<close>

datatype fit_mode = Cover | Contain | Fill | Inside | Outside
datatype position = Center | Top | Bottom | Left | Right | Entropy | Attention
datatype sharp_op = Resize nat nat fit_mode position | Jpeg nat | Png nat

record image_meta =
  m_width :: nat
  m_height :: nat
  m_format :: string
  m_size :: nat

text \<open>
  The image library is outside the repository: \<open>metadata_of\<close> is
  \<open>sharp(buffer).metadata()\<close>, \<open>toBuffer\<close> runs a chain of calls on a buffer; both may
  throw (\<open>Inl\<close> the message).
\<close>

record sharp_lib =
  metadata_of :: "bytes \<Rightarrow> string + image_meta"
  toBuffer :: "bytes \<Rightarrow> sharp_op list \<Rightarrow> string + bytes"

text \<open>\<open>options.quality || 80\<close>, \<open>options.format || 'jpeg'\<close>, \<open>options.thumbnailSize || {...}\<close>.\<close>

definition quality_or_default :: "options \<Rightarrow> nat" where
  "quality_or_default opts = (case quality opts of None \<Rightarrow> 80 | Some q \<Rightarrow> if q = 0 then 80 else q)"

definition format_or_default :: "options \<Rightarrow> string" where
  "format_or_default opts = (case format opts of None \<Rightarrow> ''jpeg'' | Some f \<Rightarrow> if f = [] then ''jpeg'' else f)"

definition thumbnailSize_or_default :: "options \<Rightarrow> dims" where
  "thumbnailSize_or_default opts =
     (case thumbnailSize opts of None \<Rightarrow> \<lparr>width = 300, height = 300\<rparr> | Some d \<Rightarrow> d)"

text \<open>The three branches on \<open>format\<close> that build the thumbnail.\<close>

definition thumbnail_ops :: "options \<Rightarrow> sharp_op list" where
  "thumbnail_ops opts =
     (let thumbnailSize' = thumbnailSize_or_default opts;
          quality' = quality_or_default opts;
          format' = format_or_default opts
      in if format' = ''jpeg''
         then [Resize (width thumbnailSize') (height thumbnailSize') Cover Center, Jpeg quality']
         else if format' = ''png''
         then [Resize (width thumbnailSize') (height thumbnailSize') Cover Center, Png quality']
         else [Resize (width thumbnailSize') (height thumbnailSize') Cover Center])"

text \<open>
  The thumbnail key of an original key: \<open>{directory}/thumbnails/thumb_{filename}\<close>
  (the handler, and \<open>getThumbnailKey\<close> of services/s3Service.js).
\<close>

definition getThumbnailKey :: "string \<Rightarrow> string" where
  "getThumbnailKey originalKey =
     (let pathParts = split CHR ''/'' originalKey;
          filename' = last pathParts;
          directory = join ''/'' (butlast pathParts)
      in directory @ ''/thumbnails/thumb_'' @ filename')"

record results =
  r_originalKey :: string
  r_metadata :: image_meta
  r_thumbnailKey :: "string option"
  r_thumbnailMetadata :: "(dims \<times> string \<times> nat) option"

datatype handler_body = Success results | Failure string

text \<open>
  \<open>exports.handler\<close>, on the bucket named in the event. Every exception is caught and
  answered with status code 500; \<open>upload_error\<close> is the error of the final
  \<open>s3.upload\<close>, if it throws.
\<close>

definition handler ::
  "sharp_lib \<Rightarrow> string option \<Rightarrow> lambda_event \<Rightarrow> (string \<rightharpoonup> bytes)
     \<Rightarrow> (nat \<times> handler_body) \<times> (string \<rightharpoonup> bytes)" where
  "handler lib upload_error event store =
     (if \<not> truthy (imageKey event) \<or> \<not> truthy (bucket event)
      then ((500, Failure ''Missing required parameters: imageKey and bucket''), store)
      else
        let imageKey' = the (imageKey event);
            opts = (case options event of
                      None \<Rightarrow> \<lparr>generateThumbnail = None, thumbnailSize = None, quality = None,
                                format = None, async = None\<rparr>
                    | Some opts \<Rightarrow> opts)
        in
        case store imageKey' of
          None \<Rightarrow> ((500, Failure ''The specified key does not exist.''), store)
        | Some imageBuffer \<Rightarrow>
            (case metadata_of lib imageBuffer of
               Inl e \<Rightarrow> ((500, Failure e), store)
             | Inr metadata \<Rightarrow>
                 if generateThumbnail opts \<noteq> Some False
                 then
                   (case toBuffer lib imageBuffer (thumbnail_ops opts) of
                      Inl e \<Rightarrow> ((500, Failure e), store)
                    | Inr thumbnailBuffer \<Rightarrow>
                        let thumbnailKey' = getThumbnailKey imageKey' in
                        (case upload_error of
                           Some e \<Rightarrow> ((500, Failure e), store)
                         | None \<Rightarrow>
                             ((200, Success
                                 \<lparr>r_originalKey = imageKey', r_metadata = metadata,
                                  r_thumbnailKey = Some thumbnailKey',
                                  r_thumbnailMetadata =
                                    Some (thumbnailSize_or_default opts, format_or_default opts,
                                          quality_or_default opts)\<rparr>),
                              store(thumbnailKey' \<mapsto> thumbnailBuffer))))
                 else
                   ((200, Success
                       \<lparr>r_originalKey = imageKey', r_metadata = metadata,
                        r_thumbnailKey = None, r_thumbnailMetadata = None\<rparr>), store)))"


section \<open>Services called by the photo routes\<close>

text \<open>
  What an invocation of the image-processing function gives the client: the call or the
  decoding throws, or there is a payload, the object that \<open>JSON.parse\<close> returns.
  \<open>processImage\<close> reads the keys \<open>errorMessage\<close> and \<open>thumbnailKey\<close> of it; the
  value that \<open>exports.handler\<close> returns has the keys \<open>statusCode\<close> and \<open>body\<close>,
  where \<open>body\<close> is the JSON text of the results or of the error, kept here as the value
  it encodes. A key that the object does not have is \<open>None\<close>.
\<close>

record payload =
  errorMessage :: "string option"
  pl_thumbnailKey :: "string option"
  pl_statusCode :: "nat option"
  pl_body :: "handler_body option"

datatype invoke_result = Throws string | Payload payload

text \<open>
  The environment of a request: the clock, the random sources, \<open>path.extname\<close>, and the
  behaviour of the remote services. \<open>lambda_send\<close> is the invocation of the image
  processor, which may also write to the bucket.
\<close>

record env =
  now :: string
  uuid :: string
  random :: string
  extname :: "string \<Rightarrow> string"
  production :: bool
  s3_location :: "string \<Rightarrow> string"
  s3_put_error :: "string option"
  s3_delete_error :: "string \<Rightarrow> string option"
  S3_BUCKET_NAME :: "string option"
  lambda_send :: "lambda_event \<Rightarrow> (string \<rightharpoonup> bytes) \<Rightarrow> invoke_result \<times> (string \<rightharpoonup> bytes)"
  dynamo_fails :: bool

record processing_result =
  success :: bool
  is_async :: bool
  originalKey :: "string option"
  thumbnailKey :: "string option"

text \<open>
  \<open>LambdaImageProcessingService.processImage\<close> (services/lambdaService.js).
  \<open>processImage_event\<close> is the payload it sends: the keys given in \<open>options\<close> override
  the defaults. A thrown error is \<open>Inl\<close>.
\<close>

definition processImage_event :: "env \<Rightarrow> string option \<Rightarrow> options \<Rightarrow> lambda_event" where
  "processImage_event e imageKey' opts =
     \<lparr>imageKey = imageKey',
      bucket = S3_BUCKET_NAME e,
      options = Some
        \<lparr>generateThumbnail = Some (case generateThumbnail opts of None \<Rightarrow> True | Some b \<Rightarrow> b),
         thumbnailSize = Some (case thumbnailSize opts of
                                 None \<Rightarrow> \<lparr>width = 300, height = 300\<rparr> | Some d \<Rightarrow> d),
         quality = Some (case quality opts of None \<Rightarrow> 80 | Some q \<Rightarrow> q),
         format = Some (case format opts of None \<Rightarrow> ''jpeg'' | Some f \<Rightarrow> f),
         async = async opts\<rparr>\<rparr>"

definition processImage ::
  "env \<Rightarrow> state \<Rightarrow> string option \<Rightarrow> options \<Rightarrow> (string + processing_result) \<times> state" where
  "processImage e st imageKey' opts =
     (let event = processImage_event e imageKey' opts;
          (response, store) = lambda_send e event (s3 st);
          st' = st\<lparr>s3 := store\<rparr>
      in case response of
           Throws msg \<Rightarrow> (Inl (''Failed to process image: '' @ msg), st')
         | Payload result \<Rightarrow>
             if async opts = Some True
             then (Inr \<lparr>success = True, is_async = True, originalKey = None, thumbnailKey = None\<rparr>, st')
             else if truthy (errorMessage result)
             then (Inl (''Failed to process image: '' @ the (errorMessage result)), st')
             else (Inr \<lparr>success = True, is_async = False, originalKey = imageKey',
                        thumbnailKey = pl_thumbnailKey result\<rparr>, st'))"

text \<open>
  The invocation service is outside the repository. A synchronous invocation of a function
  answers with the value the function returned, as JSON: behind that service, the payload
  of the repository's function is the object with the keys \<open>statusCode\<close> and \<open>body\<close>
  that \<open>exports.handler\<close> returns, and \<open>invoke_handler\<close> is the invocation.
\<close>

definition lambda_payload :: "nat \<times> handler_body \<Rightarrow> payload" where
  "lambda_payload answer =
     \<lparr>errorMessage = None, pl_thumbnailKey = None,
      pl_statusCode = Some (fst answer), pl_body = Some (snd answer)\<rparr>"

definition invoke_handler ::
  "sharp_lib \<Rightarrow> string option \<Rightarrow> lambda_event \<Rightarrow> (string \<rightharpoonup> bytes)
     \<Rightarrow> invoke_result \<times> (string \<rightharpoonup> bytes)" where
  "invoke_handler lib upload_error event store =
     (Payload (lambda_payload (fst (handler lib upload_error event store))),
      snd (handler lib upload_error event store))"


text \<open>The options both photo routes pass to \<open>processImage\<close>.\<close>

definition route_options :: options where
  "route_options =
     \<lparr>generateThumbnail = Some True, thumbnailSize = Some \<lparr>width = 300, height = 300\<rparr>,
      quality = Some 80, format = None, async = None\<rparr>"

text \<open>
  \<open>DynamoUserActivityService.logActivity\<close>: appends an item; a failure of the table is
  caught inside and never reaches the caller.
\<close>

definition logActivity :: "env \<Rightarrow> state \<Rightarrow> oid \<Rightarrow> string \<Rightarrow> oid \<Rightarrow> state" where
  "logActivity e st uid act pid =
     (if dynamo_fails e then st
      else st\<lparr>activities := activities st @ [\<lparr>userId = uid, activity = act, act_photoId = pid\<rparr>]\<rparr>)"

text \<open>
  \<open>deleteFromS3\<close> (services/s3Service.js); \<open>s3_delete_error\<close> is the message of the
  error of the storage service, if the deletion fails, and \<open>Inl\<close> is the error thrown.
\<close>

definition deleteFromS3 :: "env \<Rightarrow> state \<Rightarrow> string \<Rightarrow> (string + unit) \<times> state" where
  "deleteFromS3 e st k =
     (case s3_delete_error e k of
        Some msg \<Rightarrow> (Inl (''Failed to delete file from S3: '' @ msg), st)
      | None \<Rightarrow> (Inr (), st\<lparr>s3 := (s3 st)(k := None)\<rparr>))"

section \<open>Upload middleware and error handler\<close>

record file_part =
  f_originalname :: string
  f_mimetype :: string
  f_data :: bytes

text \<open>
  A multipart upload request: the \<open>title\<close> field (absent is the empty string), the
  \<open>description\<close> field if there is one, and the file part named \<open>photo\<close> if there
  is one.
\<close>

record upload_req =
  u_title :: jstring
  u_description :: "jstring option"
  u_file :: "file_part option"

text \<open>\<open>req.file\<close> as the storage engine leaves it.\<close>

record uploaded_file =
  uf_key :: string
  uf_location :: string
  uf_originalname :: string
  uf_mimetype :: string
  uf_size :: nat

datatype error = Error (err_code: "string option") (err_message: string)

text \<open>The error-handling middleware of server.js.\<close>

definition error_handler :: "env \<Rightarrow> error \<Rightarrow> response" where
  "error_handler e err =
     (if err_code err = Some ''LIMIT_FILE_SIZE'' then (400, Message ''File too large'')
      else if err_code err = Some ''LIMIT_UNEXPECTED_FILE'' then (400, Message ''Unexpected file field'')
      else (500, Message (if production e then ''Internal server error'' else err_message err)))"

definition fileFilter :: "file_part \<Rightarrow> bool" where
  "fileFilter file = startsWith (f_mimetype file) ''image/''"

definition fileSize_limit :: nat where
  "fileSize_limit = 10 * 1024 * 1024"

text \<open>
  \<open>upload.single('photo')\<close> with the multer-s3 storage of services/s3Service.js. The
  filter is asked first; a file whose size reaches the limit aborts the request with the
  code \<open>LIMIT_FILE_SIZE\<close>, and what the storage engine had written of it is removed
  again.
  An accepted file is stored under \<open>photos/{timestamp}-{uuid}{extension}\<close>.
  \<open>Inl\<close> is the error passed to the error handler.
\<close>

definition upload_single :: "env \<Rightarrow> state \<Rightarrow> upload_req \<Rightarrow> (error + uploaded_file option) \<times> state" where
  "upload_single e st req =
     (case u_file req of
        None \<Rightarrow> (Inr None, st)
      | Some file \<Rightarrow>
          if \<not> fileFilter file then (Inl (Error None ''Only image files are allowed!''), st)
          else if length (f_data file) \<ge> fileSize_limit
          then (Inl (Error (Some ''LIMIT_FILE_SIZE'') ''File too large''), st)
          else
            (case s3_put_error e of
               Some msg \<Rightarrow> (Inl (Error None msg), st)
             | None \<Rightarrow>
                 let filename' = ''photos/'' @ now e @ ''-'' @ uuid e @ extname e (f_originalname file)
                 in (Inr (Some \<lparr>uf_key = filename', uf_location = s3_location e filename',
                                 uf_originalname = f_originalname file,
                                 uf_mimetype = f_mimetype file,
                                 uf_size = length (f_data file)\<rparr>),
                     st\<lparr>s3 := (s3 st)(filename' \<mapsto> f_data file)\<rparr>)))"

section \<open>Photo routes (routes/photos.js)\<close>

text \<open>
  Schema validation at \<open>photo.save()\<close>: the required strings are present and not empty,
  the title has at most 100 characters and the description at most 500.
\<close>

definition photo_valid :: "photo \<Rightarrow> bool" where
  "photo_valid p =
     (title p \<noteq> [] \<and> length (title p) \<le> 100 \<and> length (description p) \<le> 500
      \<and> filename p \<noteq> [] \<and> originalName p \<noteq> [] \<and> mimetype p \<noteq> []
      \<and> truthy (s3Key p) \<and> truthy (s3Location p))"

text \<open>The document built by \<open>new Photo({...})\<close> in the upload route, with the schema's defaults.\<close>

definition new_photo :: "oid \<Rightarrow> upload_req \<Rightarrow> uploaded_file \<Rightarrow> string option \<Rightarrow> photo" where
  "new_photo uid req file thumbnailKey' =
     \<lparr>title = trim (trim (u_title req)),
      description = trim (case map_option trim (u_description req) of None \<Rightarrow> [] | Some d \<Rightarrow> d),
      filename = uf_key file,
      originalName = uf_originalname file,
      mimetype = uf_mimetype file,
      size_p = uf_size file,
      thumbnailPath = None,
      s3Key = Some (uf_key file),
      s3Location = Some (uf_location file),
      thumbnailS3Key = thumbnailKey',
      processingStatus = Pending,
      processingError = None,
      uploadedBy = uid,
      albums = [],
      views = 0\<rparr>"

text \<open>
  POST /upload: the upload middleware, then the validators, then the handler. \<open>uid\<close> is
  the authenticated user and \<open>new_id\<close> the ObjectId that \<open>new Photo\<close> generates.
  \<open>thumbnailKey_or_null\<close> is the \<open>try\<close> around the image processing: the key of the
  result, and null if the call throws. A null and an absent thumbnail key are both
  \<open>None\<close>.
\<close>

definition thumbnailKey_or_null :: "string + processing_result \<Rightarrow> string option" where
  "thumbnailKey_or_null processingResult =
     (case processingResult of Inl lambdaError \<Rightarrow> None | Inr r \<Rightarrow> thumbnailKey r)"

definition upload_photo :: "env \<Rightarrow> state \<Rightarrow> oid \<Rightarrow> oid \<Rightarrow> upload_req \<Rightarrow> response \<times> state" where
  "upload_photo e st uid new_id req =
     (case upload_single e st req of
        (Inl err, st1) \<Rightarrow> (error_handler e err, st1)
      | (Inr file_opt, st1) \<Rightarrow>
          if title_errors (u_title req) \<noteq> [] then ((400, Errors (title_errors (u_title req))), st1)
          else
            (case file_opt of
               None \<Rightarrow> ((400, Message ''No file uploaded''), st1)
             | Some file \<Rightarrow>
                 let (processingResult, st2) = processImage e st1 (Some (uf_key file)) route_options;
                     thumbnailKey' = thumbnailKey_or_null processingResult;
                     ph = new_photo uid req file thumbnailKey'
                 in
                 if \<not> photo_valid ph \<or> Photo st2 new_id \<noteq> None
                 then ((500, Message ''Server error''), st2)
                 else
                   let st3 = st2\<lparr>Photo := (Photo st2)(new_id \<mapsto> ph)\<rparr>;
                       st4 = logActivity e st3 uid ''photo_upload'' new_id
                   in ((201, Photo_created new_id (title ph) (description ph) (s3Location ph)
                              (thumbnailS3Key ph)), st4)))"

text \<open>GET /:id.\<close>

definition get_photo :: "state \<Rightarrow> oid \<Rightarrow> response" where
  "get_photo st pid =
     (case Photo st pid of
        None \<Rightarrow> (404, Message ''Photo not found'')
      | Some ph \<Rightarrow>
          (case User st (uploadedBy ph) of
             None \<Rightarrow> (500, Message ''Server error'')
           | Some username \<Rightarrow>
               (200, Photo_doc pid (title ph) (description ph) (s3Location ph)
                       (thumbnailS3Key ph) username)))"

text \<open>
  DELETE /:id. Inside the \<open>try\<close> that deletes the two objects, a failure of the first
  deletion skips the second; the record is deleted in either case.
\<close>

definition delete_photo :: "env \<Rightarrow> state \<Rightarrow> oid \<Rightarrow> oid \<Rightarrow> response \<times> state" where
  "delete_photo e st uid pid =
     (case Photo st pid of
        None \<Rightarrow> ((404, Message ''Photo not found''), st)
      | Some ph \<Rightarrow>
          if uploadedBy ph \<noteq> uid
          then ((403, Message ''Not authorized to delete this photo''), st)
          else
            let (r1, st1) = (if truthy (s3Key ph) then deleteFromS3 e st (the (s3Key ph))
                             else (Inr (), st));
                st2 = (case r1 of
                         Inl s3Error \<Rightarrow> st1
                       | Inr _ \<Rightarrow> if truthy (thumbnailS3Key ph)
                                  then snd (deleteFromS3 e st1 (the (thumbnailS3Key ph)))
                                  else st1);
                st3 = st2\<lparr>Photo := (Photo st2)(pid := None)\<rparr>;
                st4 = logActivity e st3 uid ''photo_delete'' pid
            in ((200, Message ''Photo deleted successfully''), st4))"

text \<open>POST /:id/reprocess.\<close>

definition reprocess_photo :: "env \<Rightarrow> state \<Rightarrow> oid \<Rightarrow> oid \<Rightarrow> response \<times> state" where
  "reprocess_photo e st uid pid =
     (case Photo st pid of
        None \<Rightarrow> ((404, Message ''Photo not found''), st)
      | Some ph \<Rightarrow>
          if uploadedBy ph \<noteq> uid
          then ((403, Message ''Not authorized to reprocess this photo''), st)
          else
            (case processImage e st (s3Key ph) route_options of
               (Inl err, st1) \<Rightarrow> ((500, Message ''Failed to reprocess photo''), st1)
             | (Inr processingResult, st1) \<Rightarrow>
                 let ph' = ph\<lparr>thumbnailS3Key := thumbnailKey processingResult\<rparr> in
                 if \<not> photo_valid ph'
                 then ((500, Message ''Failed to reprocess photo''), st1)
                 else ((200, Reprocessed (thumbnailS3Key ph')),
                       st1\<lparr>Photo := (Photo st1)(pid \<mapsto> ph')\<rparr>)))"


section \<open>Local-storage variant of the photo upload route\<close>

text \<open>
  The variant of routes/photos.js that keeps the files on disk. Paths are relative to the
  application directory. Its Photo schema is not part of the sources, so the validation
  done by \<open>save\<close> is a parameter (\<open>legacy_valid\<close>), and so is the handler of middleware
  errors of the application it is mounted in (\<open>on_error\<close>).
\<close>

record local_file =
  lf_filename :: string
  lf_path :: string
  lf_originalname :: string
  lf_mimetype :: string
  lf_size :: nat

definition upload_single_local ::
  "env \<Rightarrow> state \<Rightarrow> upload_req \<Rightarrow> (error + local_file option) \<times> state" where
  "upload_single_local e st req =
     (case u_file req of
        None \<Rightarrow> (Inr None, st)
      | Some file \<Rightarrow>
          if \<not> fileFilter file then (Inl (Error None ''Only image files are allowed''), st)
          else if length (f_data file) \<ge> fileSize_limit
          then (Inl (Error (Some ''LIMIT_FILE_SIZE'') ''File too large''), st)
          else
            let uniqueSuffix = now e @ ''-'' @ random e;
                filename' = uniqueSuffix @ extname e (f_originalname file);
                path = ''uploads/'' @ filename'
            in (Inr (Some \<lparr>lf_filename = filename', lf_path = path,
                            lf_originalname = f_originalname file,
                            lf_mimetype = f_mimetype file,
                            lf_size = length (f_data file)\<rparr>),
                st\<lparr>disk := (disk st)(path \<mapsto> f_data file)\<rparr>))"

text \<open>\<open>generateThumbnail(inputPath, outputPath)\<close>: true if the thumbnail was written.\<close>

definition generateThumbnail_local :: "sharp_lib \<Rightarrow> state \<Rightarrow> string \<Rightarrow> string \<Rightarrow> bool \<times> state" where
  "generateThumbnail_local lib st inputPath outputPath =
     (case disk st inputPath of
        None \<Rightarrow> (False, st)
      | Some input \<Rightarrow>
          (case toBuffer lib input [Resize 300 300 Cover Center, Jpeg 80] of
             Inl err \<Rightarrow> (False, st)
           | Inr output \<Rightarrow> (True, st\<lparr>disk := (disk st)(outputPath \<mapsto> output)\<rparr>)))"

definition new_photo_local :: "oid \<Rightarrow> upload_req \<Rightarrow> local_file \<Rightarrow> string \<Rightarrow> photo" where
  "new_photo_local uid req file thumbnailFilename =
     \<lparr>title = trim (trim (u_title req)),
      description = trim (case map_option trim (u_description req) of None \<Rightarrow> [] | Some d \<Rightarrow> d),
      filename = lf_filename file,
      originalName = lf_originalname file,
      mimetype = lf_mimetype file,
      size_p = lf_size file,
      thumbnailPath = Some (''/uploads/thumbnails/'' @ thumbnailFilename),
      s3Key = None,
      s3Location = None,
      thumbnailS3Key = None,
      processingStatus = Pending,
      processingError = None,
      uploadedBy = uid,
      albums = [],
      views = 0\<rparr>"

definition upload_photo_local ::
  "(error \<Rightarrow> response) \<Rightarrow> sharp_lib \<Rightarrow> (photo \<Rightarrow> bool) \<Rightarrow> env \<Rightarrow> state \<Rightarrow> oid \<Rightarrow> oid
     \<Rightarrow> upload_req \<Rightarrow> response \<times> state" where
  "upload_photo_local on_error lib legacy_valid e st uid new_id req =
     (case upload_single_local e st req of
        (Inl err, st1) \<Rightarrow> (on_error err, st1)
      | (Inr file_opt, st1) \<Rightarrow>
          if title_errors (u_title req) \<noteq> [] then ((400, Errors (title_errors (u_title req))), st1)
          else
            (case file_opt of
               None \<Rightarrow> ((400, Message ''No file uploaded''), st1)
             | Some file \<Rightarrow>
                 let thumbnailFilename = ''thumb_'' @ lf_filename file;
                     thumbnailPath' = ''uploads/thumbnails/'' @ thumbnailFilename;
                     (thumbnailGenerated, st2) = generateThumbnail_local lib st1 (lf_path file) thumbnailPath'
                 in
                 if \<not> thumbnailGenerated
                 then ((500, Message ''Failed to generate thumbnail''),
                       st2\<lparr>disk := (disk st2)(lf_path file := None)\<rparr>)
                 else
                   let ph = new_photo_local uid req file thumbnailFilename in
                   if \<not> legacy_valid ph \<or> Photo st2 new_id \<noteq> None
                   then ((500, Message ''Server error''),
                         st2\<lparr>disk := (disk st2)(lf_path file := None)\<rparr>)
                   else ((201, Photo_created_local new_id (title ph) (description ph)
                                 (thumbnailPath ph) (''/uploads/'' @ filename ph)),
                         st2\<lparr>Photo := (Photo st2)(new_id \<mapsto> ph)\<rparr>)))"

section \<open>The operations of the application\<close>

text \<open>
  One request to the photo routes (S3 variant) or the album routes. The first id of a
  mutating request is the authenticated user; the second id of \<open>Upload\<close> and
  \<open>Create_album\<close> is the ObjectId generated for the new document.
\<close>

datatype op =
    Upload oid oid upload_req
  | Get_photo oid
  | Delete_photo oid oid
  | Reprocess oid oid
  | Create_album oid oid create_album_req
  | Add_photos oid oid "oid list option"
  | Remove_photos oid oid "oid list option"
  | Delete_album oid oid

fun step :: "env \<Rightarrow> state \<Rightarrow> op \<Rightarrow> response \<times> state" where
  "step e st (Upload uid new_id req) = upload_photo e st uid new_id req"
| "step e st (Get_photo pid) = (get_photo st pid, st)"
| "step e st (Delete_photo uid pid) = delete_photo e st uid pid"
| "step e st (Reprocess uid pid) = reprocess_photo e st uid pid"
| "step e st (Create_album uid new_id req) = create_album st uid new_id req"
| "step e st (Add_photos uid aid photoIds) = add_photos st uid aid photoIds"
| "step e st (Remove_photos uid aid photoIds) = remove_photos st uid aid photoIds"
| "step e st (Delete_album uid aid) = delete_album st uid aid"

text \<open>
  The transitions of the processing status that the specification allows:
  pending to processing, processing to completed or failed.
\<close>

definition spec_status_transition :: "processing_status \<Rightarrow> processing_status \<Rightarrow> bool" where
  "spec_status_transition a b =
     ((a = Pending \<and> b = Processing) \<or> (a = Processing \<and> (b = Completed \<or> b = Failed)))"

section \<open>Example data\<close>

definition ex_photo :: "oid \<Rightarrow> string \<Rightarrow> string option \<Rightarrow> oid list \<Rightarrow> photo" where
  "ex_photo uid k thumb albs =
     \<lparr>title = js ''Sunset'', description = [], filename = k, originalName = ''sunset.jpg'',
      mimetype = ''image/jpeg'', size_p = 3, thumbnailPath = None, s3Key = Some k,
      s3Location = Some (''s3://'' @ k),
      thumbnailS3Key = thumb, processingStatus = Pending, processingError = None,
      uploadedBy = uid, albums = albs, views = 0\<rparr>"

text \<open>
  User 10 (alice) owns photo 1, which has a thumbnail and is the only photo and the cover
  of album 5; album 6 is empty; user 11 (bob) owns photo 2.
\<close>

definition ex_state :: state where
  "ex_state =
     \<lparr>Photo = [1 \<mapsto> ex_photo 10 ''photos/a.jpg'' (Some ''photos/thumbnails/thumb_a.jpg'') [5],
               2 \<mapsto> ex_photo 11 ''photos/b.jpg'' None []],
      Album = [5 \<mapsto> \<lparr>a_title = js ''Holiday'', a_description = [], createdBy = 10,
                      photos = [1], coverPhoto = Some 1\<rparr>,
               6 \<mapsto> \<lparr>a_title = js ''Empty'', a_description = [], createdBy = 10,
                      photos = [], coverPhoto = None\<rparr>],
      User = [10 \<mapsto> ''alice'', 11 \<mapsto> ''bob''],
      s3 = [''photos/a.jpg'' \<mapsto> [1, 2, 3], ''photos/thumbnails/thumb_a.jpg'' \<mapsto> [1],
            ''photos/b.jpg'' \<mapsto> [4, 5, 6]],
      disk = Map.empty,
      activities = []\<rparr>"

text \<open>An environment in which every service works, around a given image processor.\<close>

definition ex_env ::
  "(lambda_event \<Rightarrow> (string \<rightharpoonup> bytes) \<Rightarrow> invoke_result \<times> (string \<rightharpoonup> bytes)) \<Rightarrow> env" where
  "ex_env send =
     \<lparr>now = ''17'', uuid = ''u'', random = ''42'', extname = (\<lambda>name. ''.jpg''),
      production = False, s3_location = (\<lambda>k. ''s3://'' @ k), s3_put_error = None,
      s3_delete_error = (\<lambda>k. None), S3_BUCKET_NAME = Some ''pixelboard-uploads'',
      lambda_send = send, dynamo_fails = False\<rparr>"

text \<open>An image processor that cannot be reached.\<close>

definition send_fails :: "lambda_event \<Rightarrow> (string \<rightharpoonup> bytes) \<Rightarrow> invoke_result \<times> (string \<rightharpoonup> bytes)" where
  "send_fails event store = (Throws ''connect ETIMEDOUT'', store)"

text \<open>An image library that rejects every input, and one that accepts every input.\<close>

definition sharp_rejects :: sharp_lib where
  "sharp_rejects =
     \<lparr>metadata_of = (\<lambda>b. Inl ''Input buffer contains unsupported image format''),
      toBuffer = (\<lambda>b ops. Inl ''Input buffer contains unsupported image format'')\<rparr>"

definition sharp_accepts :: sharp_lib where
  "sharp_accepts =
     \<lparr>metadata_of = (\<lambda>b. Inr \<lparr>m_width = 640, m_height = 480, m_format = ''jpeg'', m_size = length b\<rparr>),
      toBuffer = (\<lambda>b ops. Inr (take 1 b))\<rparr>"

text \<open>A legacy schema that accepts every document.\<close>

definition legacy_accepts :: "photo \<Rightarrow> bool" where
  "legacy_accepts p = True"

definition ex_file :: "string \<Rightarrow> bytes \<Rightarrow> file_part" where
  "ex_file mime content = \<lparr>f_originalname = ''sunset.jpg'', f_mimetype = mime, f_data = content\<rparr>"

definition ex_upload :: "jstring \<Rightarrow> file_part \<Rightarrow> upload_req" where
  "ex_upload t file = \<lparr>u_title = t, u_description = None, u_file = Some file\<rparr>"



section \<open>Properties of the album routes\<close>

lemma length_map_filter: "length (List.map_filter f xs) = length (filter (\<lambda>x. f x \<noteq> None) xs)"
  by (simp add: List.map_filter_def)

lemma length_find_owned:
  "length (find_owned st ids uid) = length (filter (owns st uid) (remdups ids))"
proof -
  have "(\<lambda>i. (case Photo st i of None \<Rightarrow> None | Some p \<Rightarrow> if uploadedBy p = uid then Some p else None) \<noteq> None)
        = owns st uid"
    by (auto simp: owns_def fun_eq_iff split: option.splits)
  then show ?thesis by (simp add: find_owned_def length_map_filter)
qed

lemma find_owned_all_iff:
  "length (find_owned st ids uid) = length ids \<longleftrightarrow> distinct ids \<and> (\<forall>i \<in> set ids. owns st uid i)"
proof
  assume eq: "length (find_owned st ids uid) = length ids"
  have le1: "length (filter (owns st uid) (remdups ids)) \<le> length (remdups ids)" by simp
  have le2: "length (remdups ids) \<le> length ids" by (rule length_remdups_leq)
  from eq le1 le2 have a: "length (remdups ids) = length ids"
    and b: "length (filter (owns st uid) (remdups ids)) = length (remdups ids)"
    by (simp_all add: length_find_owned)
  from a have d: "distinct ids" by (metis distinct_remdups length_remdups_eq)
  from b have "\<forall>i \<in> set (remdups ids). owns st uid i"
    by (metis length_filter_less less_irrefl)
  with d show "distinct ids \<and> (\<forall>i \<in> set ids. owns st uid i)" by simp
next
  assume "distinct ids \<and> (\<forall>i \<in> set ids. owns st uid i)"
  then show "length (find_owned st ids uid) = length ids"
    by (simp add: length_find_owned distinct_remdups_id)
qed

lemma owns_updateMany_push [simp]: "owns (updateMany_push st ids aid) uid i = owns st uid i"
  by (auto simp: owns_def updateMany_push_def split: option.splits)

lemma owns_Album_update [simp]: "owns (st\<lparr>Album := A\<rparr>) uid i = owns st uid i"
  by (simp add: owns_def)

lemma updateMany_push_Nil [simp]: "updateMany_push st [] aid = st"
  by (simp add: updateMany_push_def)

lemma Album_updateMany_push [simp]: "Album (updateMany_push st ids aid) = Album st"
  by (simp add: updateMany_push_def)

lemma Album_updateMany_pull [simp]: "Album (updateMany_pull st ids aid) = Album st"
  by (simp add: updateMany_pull_def)

lemma ex_state_owns_1: "owns ex_state 10 1"
  by (simp add: owns_def ex_state_def ex_photo_def)

lemma ex_state_not_owns_2: "\<not> owns ex_state 10 2"
  by (simp add: owns_def ex_state_def ex_photo_def)

lemma ex_state_Album_5:
  "Album ex_state 5 = Some \<lparr>a_title = js ''Holiday'', a_description = [], createdBy = 10,
                             photos = [1], coverPhoto = Some 1\<rparr>"
  by (simp add: ex_state_def)

lemma ex_state_Album_6:
  "Album ex_state 6 = Some \<lparr>a_title = js ''Empty'', a_description = [], createdBy = 10,
                             photos = [], coverPhoto = None\<rparr>"
  by (simp add: ex_state_def)

lemma add_photos_ok:
  assumes "Album st aid = Some alb" and "createdBy alb = uid"
    and "distinct photoIds" and "\<forall>i \<in> set photoIds. owns st uid i"
  shows "add_photos st uid aid (Some photoIds) =
           ((200, Message ''Photos added to album successfully''),
            updateMany_push
              (st\<lparr>Album := (Album st)(aid \<mapsto>
                   (if coverPhoto alb = None \<and> filter (\<lambda>i. i \<notin> set (photos alb)) photoIds \<noteq> []
                    then alb\<lparr>photos := photos alb @ filter (\<lambda>i. i \<notin> set (photos alb)) photoIds,
                             coverPhoto := Some (hd (filter (\<lambda>i. i \<notin> set (photos alb)) photoIds))\<rparr>
                    else alb\<lparr>photos := photos alb @ filter (\<lambda>i. i \<notin> set (photos alb)) photoIds\<rparr>))\<rparr>)
              (filter (\<lambda>i. i \<notin> set (photos alb)) photoIds) aid)"
proof -
  have "length (find_owned st photoIds uid) = length photoIds"
    using assms(3,4) by (simp add: find_owned_all_iff)
  then show ?thesis using assms(1,2) by (simp add: add_photos_def Let_def)
qed

lemma remove_photos_ok:
  assumes "Album st aid = Some alb" and "createdBy alb = uid"
  shows "remove_photos st uid aid (Some photoIds) =
           ((200, Message ''Photos removed from album successfully''),
            updateMany_pull
              (st\<lparr>Album := (Album st)(aid \<mapsto>
                   (case coverPhoto alb of
                      None \<Rightarrow> alb\<lparr>photos := filter (\<lambda>p. p \<notin> set photoIds) (photos alb)\<rparr>
                    | Some c \<Rightarrow>
                        if c \<in> set photoIds
                        then alb\<lparr>photos := filter (\<lambda>p. p \<notin> set photoIds) (photos alb),
                                 coverPhoto := (case filter (\<lambda>p. p \<notin> set photoIds) (photos alb) of
                                                  [] \<Rightarrow> None | x # xs \<Rightarrow> Some x)\<rparr>
                        else alb\<lparr>photos := filter (\<lambda>p. p \<notin> set photoIds) (photos alb)\<rparr>))\<rparr>)
              photoIds aid)"
  using assms by (auto simp: remove_photos_def Let_def split: option.splits list.splits)

text \<open>
  C10. The ownership check of add-photos compares the number of matching documents with
  the length of \<open>photoIds\<close>: a list that names a photo twice is rejected with status 400
  and no change, although the requester owns every photo in it.
\<close>

theorem add_photos_duplicate_rejected:
  assumes "Album st aid = Some alb" and "createdBy alb = uid"
    and "\<forall>i \<in> set photoIds. owns st uid i" and "\<not> distinct photoIds"
  shows "length (find_owned st photoIds uid) < length photoIds
         \<and> add_photos st uid aid (Some photoIds)
             = ((400, Message ''Some photos not found or not owned by user''), st)"
proof -
  have "length (find_owned st photoIds uid) \<le> length (remdups photoIds)"
    by (simp add: length_find_owned)
  moreover have "length (remdups photoIds) < length photoIds"
    using assms(4) by (metis distinct_remdups length_remdups_eq length_remdups_leq le_neq_implies_less)
  ultimately have lt: "length (find_owned st photoIds uid) < length photoIds" by simp
  then show ?thesis using assms(1,2) by (simp add: add_photos_def)
qed

theorem add_photos_duplicate_rejected_witness:
  "owns ex_state 10 1 \<and> \<not> distinct [1, 1 :: oid]
   \<and> add_photos ex_state 10 6 (Some [1, 1])
       = ((400, Message ''Some photos not found or not owned by user''), ex_state)"
proof -
  have b: "\<forall>i \<in> set [1, 1 :: oid]. owns ex_state 10 i" using ex_state_owns_1 by simp
  have c: "\<not> distinct [1, 1 :: oid]" by simp
  show ?thesis
    using add_photos_duplicate_rejected [OF ex_state_Album_6 _ b c] ex_state_owns_1 by simp
qed

text \<open>
  C4. On an album of the requester and a duplicate-free list of photos the requester owns,
  add-photos succeeds; a second call with the same list succeeds and changes nothing. The
  album then lists its former photos and the given ones, without duplicates if it had
  none before; and if it had no cover and a photo was new to it, it has a cover, which is
  one of the photos given and a member of the album.
\<close>

theorem add_photos_idempotent:
  assumes "Album st aid = Some alb" and "createdBy alb = uid"
    and "distinct photoIds" and "\<forall>i \<in> set photoIds. owns st uid i"
    and "add_photos st uid aid (Some photoIds) = (r1, st1)"
    and "add_photos st1 uid aid (Some photoIds) = (r2, st2)"
  shows "fst r1 = 200 \<and> fst r2 = 200 \<and> st2 = st1
         \<and> (\<exists>alb1. Album st1 aid = Some alb1
               \<and> set (photos alb1) = set (photos alb) \<union> set photoIds
               \<and> (distinct (photos alb) \<longrightarrow> distinct (photos alb1))
               \<and> (coverPhoto alb = None \<and> \<not> set photoIds \<subseteq> set (photos alb)
                    \<longrightarrow> (\<exists>c. coverPhoto alb1 = Some c \<and> c \<in> set photoIds \<and> c \<in> set (photos alb1))))"
proof -
  let ?new = "filter (\<lambda>i. i \<notin> set (photos alb)) photoIds"
  let ?alb1 = "(if coverPhoto alb = None \<and> ?new \<noteq> []
                    then alb\<lparr>photos := photos alb @ ?new, coverPhoto := Some (hd ?new)\<rparr>
                    else alb\<lparr>photos := photos alb @ ?new\<rparr>)"
  have first: "r1 = (200, Message ''Photos added to album successfully'')"
    "st1 = updateMany_push (st\<lparr>Album := (Album st)(aid \<mapsto> ?alb1)\<rparr>) ?new aid"
    using add_photos_ok [OF assms(1-4)] assms(5) by simp_all
  have A1: "Album st1 aid = Some ?alb1" by (simp add: first(2))
  have c1: "createdBy ?alb1 = uid" using assms(2) by simp
  have o1: "\<forall>i \<in> set photoIds. owns st1 uid i" using assms(4) by (simp add: first(2))
  have ph: "photos ?alb1 = photos alb @ ?new" by simp
  have nonew: "filter (\<lambda>i. i \<notin> set (photos ?alb1)) photoIds = []"
    unfolding ph by (auto simp: filter_empty_conv)
  have second: "add_photos st1 uid aid (Some photoIds) =
           ((200, Message ''Photos added to album successfully''), st1)"
    unfolding add_photos_ok [OF A1 c1 assms(3) o1] nonew
    using A1 by (simp add: map_upd_triv cong: if_cong)
  have hdnew: "?new \<noteq> [] \<Longrightarrow> hd ?new \<in> set ?new" by (rule hd_in_set)
  have "set (photos ?alb1) = set (photos alb) \<union> set photoIds" unfolding ph by auto
  moreover have "distinct (photos alb) \<longrightarrow> distinct (photos ?alb1)"
    unfolding ph using assms(3) by auto
  moreover have "coverPhoto alb = None \<and> \<not> set photoIds \<subseteq> set (photos alb)
                    \<longrightarrow> (\<exists>c. coverPhoto ?alb1 = Some c \<and> c \<in> set photoIds \<and> c \<in> set (photos ?alb1))"
  proof
    assume h: "coverPhoto alb = None \<and> \<not> set photoIds \<subseteq> set (photos alb)"
    then have ne: "?new \<noteq> []" by (auto simp: filter_empty_conv)
    from hdnew [OF ne] have "hd ?new \<in> set photoIds" by simp
    moreover have "hd ?new \<in> set (photos alb @ ?new)" using hdnew [OF ne] by simp
    ultimately show "\<exists>c. coverPhoto ?alb1 = Some c \<and> c \<in> set photoIds \<and> c \<in> set (photos ?alb1)"
      using h ne by simp
  qed
  ultimately show ?thesis using first(1) second assms(6) A1 by simp
qed

theorem add_photos_idempotent_witness:
  "fst (fst (add_photos ex_state 10 6 (Some [1]))) = 200
   \<and> add_photos (snd (add_photos ex_state 10 6 (Some [1]))) 10 6 (Some [1])
       = ((200, Message ''Photos added to album successfully''),
          snd (add_photos ex_state 10 6 (Some [1])))
   \<and> map_option photos (Album (snd (add_photos ex_state 10 6 (Some [1]))) 6) = Some [1]
   \<and> map_option coverPhoto (Album (snd (add_photos ex_state 10 6 (Some [1]))) 6) = Some (Some 1)"
proof -
  define r1 where "r1 = fst (add_photos ex_state 10 6 (Some [1]))"
  define st1 where "st1 = snd (add_photos ex_state 10 6 (Some [1]))"
  define r2 where "r2 = fst (add_photos st1 10 6 (Some [1]))"
  define st2 where "st2 = snd (add_photos st1 10 6 (Some [1]))"
  have a1: "add_photos ex_state 10 6 (Some [1]) = (r1, st1)" by (simp add: r1_def st1_def)
  have a2: "add_photos st1 10 6 (Some [1]) = (r2, st2)" by (simp add: r2_def st2_def)
  have o: "\<forall>i \<in> set [1 :: oid]. owns ex_state 10 i" using ex_state_owns_1 by simp
  have d: "distinct [1 :: oid]" by simp
  note idem = add_photos_idempotent [OF ex_state_Album_6 _ d o a1 a2, simplified]
  have ok: "add_photos ex_state 10 6 (Some [1]) =
      ((200, Message ''Photos added to album successfully''),
        updateMany_push (ex_state\<lparr>Album := (Album ex_state)(6 \<mapsto>
           \<lparr>a_title = js ''Empty'', a_description = [], createdBy = 10, photos = [1],
            coverPhoto = Some 1\<rparr>)\<rparr>) [1] 6)"
    using add_photos_ok [OF ex_state_Album_6 _ d o] by simp
  have A: "Album st1 6 = Some \<lparr>a_title = js ''Empty'', a_description = [], createdBy = 10,
                               photos = [1], coverPhoto = Some 1\<rparr>"
    using ok a1 by auto
  have "r2 = (200, Message ''Photos added to album successfully'')"
    using a2 A idem by (auto simp: add_photos_def Let_def split: if_splits)
  then have "fst r1 = 200 \<and> add_photos st1 10 6 (Some [1])
       = ((200, Message ''Photos added to album successfully''), st1)
     \<and> map_option photos (Album st1 6) = Some [1]
     \<and> map_option coverPhoto (Album st1 6) = Some (Some 1)"
    using idem a1 a2 A by auto
  then show ?thesis by (simp add: r1_def st1_def)
qed


text \<open>
  C6. When remove-photos on the requester's album removes a list of photos that contains
  the current cover, the album keeps the photos not in the list, in order, and its cover
  is the first of them, or null if none is left; removing the only photo of an album
  leaves no photo and no cover.
\<close>

theorem remove_photos_cover:
  assumes "Album st aid = Some alb" and "createdBy alb = uid"
    and "coverPhoto alb = Some c" and "c \<in> set photoIds"
  shows "fst (fst (remove_photos st uid aid (Some photoIds))) = 200
         \<and> (\<exists>alb'. Album (snd (remove_photos st uid aid (Some photoIds))) aid = Some alb'
               \<and> photos alb' = filter (\<lambda>p. p \<notin> set photoIds) (photos alb)
               \<and> coverPhoto alb' = (case photos alb' of [] \<Rightarrow> None | x # xs \<Rightarrow> Some x)
               \<and> (photos alb = [c] \<longrightarrow> photos alb' = [] \<and> coverPhoto alb' = None))"
  using assms by (simp add: remove_photos_ok [OF assms(1,2)])

theorem remove_photos_cover_witness:
  "fst (fst (remove_photos ex_state 10 5 (Some [1]))) = 200
   \<and> map_option photos (Album (snd (remove_photos ex_state 10 5 (Some [1]))) 5) = Some []
   \<and> map_option coverPhoto (Album (snd (remove_photos ex_state 10 5 (Some [1]))) 5) = Some None"
proof -
  have c: "(1 :: oid) \<in> set [1]" by simp
  show ?thesis
    using remove_photos_cover [OF ex_state_Album_5 _ _ c, of 10] by auto
qed

text \<open>
  C5 as stated fails for remove-photos, which checks the owner of the album and not the
  owners of the photos: alice removes the list of her photo 1 and bob's photo 2 from her
  album 5, and the call succeeds and changes the album.
\<close>

theorem remove_photos_no_ownership_check:
  "\<not> owns ex_state 10 2
   \<and> fst (fst (remove_photos ex_state 10 5 (Some [1, 2]))) = 200
   \<and> map_option photos (Album (snd (remove_photos ex_state 10 5 (Some [1, 2]))) 5) = Some []
   \<and> map_option photos (Album ex_state 5) = Some [1]"
  using ex_state_not_owns_2 ex_state_Album_5
  by (simp add: remove_photos_ok [OF ex_state_Album_5])

text \<open>
  C5, amended. If some id of \<open>photoIds\<close> does not resolve to a photo owned by the
  requester, add-photos and album creation with that list fail with a client error and
  leave the state as it was (status 400 once the album is found and is the requester's,
  and for every creation). Remove-photos makes no check on the photos: on the requester's
  own album it answers 200 and the album keeps exactly its photos that are not listed.
\<close>

theorem ownership_check_no_partial_mutation:
  assumes "\<exists>i \<in> set photoIds. \<not> owns st uid i"
  shows "fst (fst (add_photos st uid aid (Some photoIds))) \<in> {400, 403, 404}
         \<and> snd (add_photos st uid aid (Some photoIds)) = st
         \<and> (\<forall>alb. Album st aid = Some alb \<and> createdBy alb = uid \<longrightarrow>
               fst (fst (add_photos st uid aid (Some photoIds))) = 400)
         \<and> fst (fst (create_album st uid new_id
                       \<lparr>ca_title = t, ca_description = d, ca_photoIds = Some photoIds\<rparr>)) = 400
         \<and> snd (create_album st uid new_id
                  \<lparr>ca_title = t, ca_description = d, ca_photoIds = Some photoIds\<rparr>) = st
         \<and> (\<forall>alb. Album st aid = Some alb \<and> createdBy alb = uid \<longrightarrow>
               fst (fst (remove_photos st uid aid (Some photoIds))) = 200
               \<and> map_option photos (Album (snd (remove_photos st uid aid (Some photoIds))) aid)
                   = Some (filter (\<lambda>p. p \<notin> set photoIds) (photos alb)))"
proof -
  have ne: "length (find_owned st photoIds uid) \<noteq> length photoIds"
    using assms by (auto simp: find_owned_all_iff)
  have nonempty: "photoIds \<noteq> []" using assms by auto
  have add: "fst (fst (add_photos st uid aid (Some photoIds))) \<in> {400, 403, 404}
         \<and> snd (add_photos st uid aid (Some photoIds)) = st
         \<and> (\<forall>alb. Album st aid = Some alb \<and> createdBy alb = uid \<longrightarrow>
               fst (fst (add_photos st uid aid (Some photoIds))) = 400)"
    using ne by (auto simp: add_photos_def split: option.splits)
  have create: "fst (fst (create_album st uid new_id
                       \<lparr>ca_title = t, ca_description = d, ca_photoIds = Some photoIds\<rparr>)) = 400
         \<and> snd (create_album st uid new_id
                  \<lparr>ca_title = t, ca_description = d, ca_photoIds = Some photoIds\<rparr>) = st"
    using ne nonempty by (simp add: create_album_def)
  have remove: "\<forall>alb. Album st aid = Some alb \<and> createdBy alb = uid \<longrightarrow>
               fst (fst (remove_photos st uid aid (Some photoIds))) = 200
               \<and> map_option photos (Album (snd (remove_photos st uid aid (Some photoIds))) aid)
                   = Some (filter (\<lambda>p. p \<notin> set photoIds) (photos alb))"
    by (auto simp: remove_photos_ok split: option.splits)
  from add create remove show ?thesis by blast
qed

theorem ownership_check_no_partial_mutation_witness:
  "\<not> owns ex_state 10 2
   \<and> fst (fst (add_photos ex_state 10 5 (Some [1, 2]))) = 400
   \<and> snd (add_photos ex_state 10 5 (Some [1, 2])) = ex_state
   \<and> fst (fst (create_album ex_state 10 7
                 \<lparr>ca_title = js ''New'', ca_description = None, ca_photoIds = Some [1, 2]\<rparr>)) = 400
   \<and> snd (create_album ex_state 10 7
            \<lparr>ca_title = js ''New'', ca_description = None, ca_photoIds = Some [1, 2]\<rparr>) = ex_state
   \<and> fst (fst (remove_photos ex_state 10 5 (Some [1, 2]))) = 200"
proof -
  have h: "\<exists>i \<in> set [1, 2 :: oid]. \<not> owns ex_state 10 i" using ex_state_not_owns_2 by simp
  show ?thesis
    using ownership_check_no_partial_mutation [OF h, of 5 7 "js ''New''" None]
      ex_state_not_owns_2 ex_state_Album_5
    by simp
qed


section \<open>Properties of the photo routes\<close>

lemma ex_state_Photo_1:
  "Photo ex_state 1 = Some (ex_photo 10 ''photos/a.jpg'' (Some ''photos/thumbnails/thumb_a.jpg'') [5])"
  by (simp add: ex_state_def)

text \<open>
  C7. A delete request for an existing photo by a user who is not its owner is answered
  403 and leaves the whole state as it was: no object and no record is deleted, and a
  fetch of the photo by id answers as before, with the photo's record.
\<close>

theorem delete_photo_forbidden:
  assumes "Photo st pid = Some ph" and "uploadedBy ph \<noteq> uid"
  shows "delete_photo e st uid pid = ((403, Message ''Not authorized to delete this photo''), st)
         \<and> Photo (snd (delete_photo e st uid pid)) pid = Some ph
         \<and> s3 (snd (delete_photo e st uid pid)) = s3 st
         \<and> get_photo (snd (delete_photo e st uid pid)) pid = get_photo st pid
         \<and> (\<forall>username. User st (uploadedBy ph) = Some username \<longrightarrow>
               get_photo (snd (delete_photo e st uid pid)) pid
                 = (200, Photo_doc pid (title ph) (description ph) (s3Location ph)
                           (thumbnailS3Key ph) username))"
  using assms by (simp add: delete_photo_def get_photo_def)

theorem delete_photo_forbidden_witness:
  "delete_photo (ex_env send_fails) ex_state 11 1
     = ((403, Message ''Not authorized to delete this photo''), ex_state)
   \<and> get_photo (snd (delete_photo (ex_env send_fails) ex_state 11 1)) 1
     = (200, Photo_doc 1 (js ''Sunset'') [] (Some ''s3://photos/a.jpg'')
               (Some ''photos/thumbnails/thumb_a.jpg'') ''alice'')"
proof -
  let ?ph = "ex_photo 10 ''photos/a.jpg'' (Some ''photos/thumbnails/thumb_a.jpg'') [5]"
  have u: "uploadedBy ?ph \<noteq> 11" by (simp add: ex_photo_def)
  have usr: "User ex_state (uploadedBy ?ph) = Some ''alice''"
    by (simp add: ex_state_def ex_photo_def)
  from delete_photo_forbidden [OF ex_state_Photo_1 u, of "ex_env send_fails"]
  have a: "delete_photo (ex_env send_fails) ex_state 11 1
             = ((403, Message ''Not authorized to delete this photo''), ex_state)"
    and b: "\<forall>username. User ex_state (uploadedBy ?ph) = Some username \<longrightarrow>
               get_photo (snd (delete_photo (ex_env send_fails) ex_state 11 1)) 1
                 = (200, Photo_doc 1 (title ?ph) (description ?ph) (s3Location ?ph)
                           (thumbnailS3Key ?ph) username)"
    by blast+
  from b usr have "get_photo (snd (delete_photo (ex_env send_fails) ex_state 11 1)) 1
                 = (200, Photo_doc 1 (title ?ph) (description ?ph) (s3Location ?ph)
                           (thumbnailS3Key ?ph) ''alice'')"
    by blast
  then have "get_photo (snd (delete_photo (ex_env send_fails) ex_state 11 1)) 1
     = (200, Photo_doc 1 (js ''Sunset'') [] (Some ''s3://photos/a.jpg'')
               (Some ''photos/thumbnails/thumb_a.jpg'') ''alice'')"
    by (simp add: ex_photo_def)
  with a show ?thesis by blast
qed


lemma processImage_fields [simp]:
  "Photo (snd (processImage e st k opts)) = Photo st"
  "Album (snd (processImage e st k opts)) = Album st"
  "User (snd (processImage e st k opts)) = User st"
  "disk (snd (processImage e st k opts)) = disk st"
  "activities (snd (processImage e st k opts)) = activities st"
  by (simp_all add: processImage_def Let_def split: prod.splits invoke_result.splits)

lemma upload_single_fields [simp]:
  "Photo (snd (upload_single e st req)) = Photo st"
  "Album (snd (upload_single e st req)) = Album st"
  "User (snd (upload_single e st req)) = User st"
  "disk (snd (upload_single e st req)) = disk st"
  "activities (snd (upload_single e st req)) = activities st"
  by (simp_all add: upload_single_def Let_def split: option.splits)

lemma logActivity_fields [simp]:
  "Photo (logActivity e st uid act pid) = Photo st"
  "Album (logActivity e st uid act pid) = Album st"
  "User (logActivity e st uid act pid) = User st"
  "s3 (logActivity e st uid act pid) = s3 st"
  "disk (logActivity e st uid act pid) = disk st"
  by (simp_all add: logActivity_def)

lemma upload_single_local_fields [simp]:
  "Photo (snd (upload_single_local e st req)) = Photo st"
  "s3 (snd (upload_single_local e st req)) = s3 st"
  by (simp_all add: upload_single_local_def Let_def split: option.splits)

lemma generateThumbnail_local_fields [simp]:
  "Photo (snd (generateThumbnail_local lib st i out)) = Photo st"
  "s3 (snd (generateThumbnail_local lib st i out)) = s3 st"
  by (simp_all add: generateThumbnail_local_def split: option.splits sum.splits)

lemma processImage_Photo: "processImage e st k opts = (r, st') \<Longrightarrow> Photo st' = Photo st"
  using processImage_fields(1) [of e st k opts] by simp

lemma upload_single_Photo: "upload_single e st req = (r, st') \<Longrightarrow> Photo st' = Photo st"
  using upload_single_fields(1) [of e st req] by simp

lemma upload_single_local_Photo: "upload_single_local e st req = (r, st') \<Longrightarrow> Photo st' = Photo st"
  using upload_single_local_fields(1) [of e st req] by simp

lemma generateThumbnail_local_Photo:
  "generateThumbnail_local lib st i out = (b, st') \<Longrightarrow> Photo st' = Photo st"
  using generateThumbnail_local_fields(1) [of lib st i out] by simp

lemma processImage_invoke_handler:
  assumes "lambda_send e = invoke_handler lib upload_error" and "async opts \<noteq> Some True"
  shows "processImage e st k opts =
           (Inr \<lparr>success = True, is_async = False, originalKey = k, thumbnailKey = None\<rparr>,
            st\<lparr>s3 := snd (handler lib upload_error (processImage_event e k opts) (s3 st))\<rparr>)"
  using assms
  by (simp add: processImage_def invoke_handler_def lambda_payload_def truthy_def Let_def)

lemma trim_Sunset: "trim (js ''Sunset'') = js ''Sunset''"
  by (simp add: trim_def is_space_def js_def)

lemma trim_Nil: "trim [] = []"
  by (simp add: trim_def)

text \<open>
  C1 as stated fails in the local-storage variant of the upload route, which gives up when
  the thumbnail cannot be generated: a valid upload is answered 500, the uploaded file is
  removed and no record is created.
\<close>

theorem upload_photo_local_derivation_failure:
  "fileFilter (ex_file ''image/jpeg'' [7, 8, 9])
   \<and> title_errors (js ''Sunset'') = []
   \<and> disk (snd (upload_single_local (ex_env send_fails) ex_state
                 (ex_upload (js ''Sunset'') (ex_file ''image/jpeg'' [7, 8, 9])))) ''uploads/17-42.jpg''
       = Some [7, 8, 9]
   \<and> fst (upload_photo_local (error_handler (ex_env send_fails)) sharp_rejects legacy_accepts
            (ex_env send_fails) ex_state 10 3
            (ex_upload (js ''Sunset'') (ex_file ''image/jpeg'' [7, 8, 9])))
       = (500, Message ''Failed to generate thumbnail'')
   \<and> Photo (snd (upload_photo_local (error_handler (ex_env send_fails)) sharp_rejects legacy_accepts
            (ex_env send_fails) ex_state 10 3
            (ex_upload (js ''Sunset'') (ex_file ''image/jpeg'' [7, 8, 9])))) 3
       = None"
  by (simp add: fileFilter_def startsWith_def ex_file_def ex_upload_def title_errors_def js_def
      upload_single_local_def upload_photo_local_def generateThumbnail_local_def
      fileSize_limit_def ex_env_def sharp_rejects_def ex_state_def Let_def)

text \<open>
  C1, amended. In the S3 upload route, when the upload middleware has accepted and stored
  the file, the title passes the validator and the document passes schema validation
  under a fresh id, and thumbnail derivation fails, the request is answered 201, the
  record is persisted and its thumbnail key is null (\<open>None\<close>), in the record and in the
  response. A failed derivation is one that gives the route no thumbnail key: the image processing
  throws, or it answers without a key, as it does behind the invocation service when the
  repository's function answers with a failure. In the local-storage variant, when the
  thumbnail cannot be generated the request is answered 500, the uploaded file is removed
  and no record is created.
\<close>

theorem upload_derivation_failure:
  "(upload_single e st req = (Inr (Some ufile), st1)
      \<and> title_errors (u_title req) = []
      \<and> thumbnailKey_or_null (fst (processImage e st1 (Some (uf_key ufile)) route_options)) = None
      \<and> photo_valid (new_photo uid req ufile None) \<and> Photo st new_id = None
    \<longrightarrow> fst (upload_photo e st uid new_id req)
          = (201, Photo_created new_id (title (new_photo uid req ufile None))
                    (description (new_photo uid req ufile None)) (Some (uf_location ufile)) None)
        \<and> Photo (snd (upload_photo e st uid new_id req)) new_id = Some (new_photo uid req ufile None)
        \<and> thumbnailS3Key (new_photo uid req ufile None) = None)
   \<and> (fst (processImage e st1 k route_options) = Inl err
    \<longrightarrow> thumbnailKey_or_null (fst (processImage e st1 k route_options)) = None)
   \<and> (lambda_send e = invoke_handler lib upload_error
        \<and> snd (fst (handler lib upload_error (processImage_event e k route_options) (s3 st1)))
            = Failure msg
    \<longrightarrow> thumbnailKey_or_null (fst (processImage e st1 k route_options)) = None)
   \<and> (upload_single_local e st req = (Inr (Some lfile), st2)
      \<and> title_errors (u_title req) = []
      \<and> \<not> fst (generateThumbnail_local lib st2 (lf_path lfile)
                 (''uploads/thumbnails/'' @ ''thumb_'' @ lf_filename lfile))
    \<longrightarrow> fst (upload_photo_local on_error lib legacy_valid e st uid new_id req)
          = (500, Message ''Failed to generate thumbnail'')
        \<and> Photo (snd (upload_photo_local on_error lib legacy_valid e st uid new_id req)) = Photo st
        \<and> disk (snd (upload_photo_local on_error lib legacy_valid e st uid new_id req)) (lf_path lfile)
            = None)"
proof (intro conjI impI)
  assume h: "upload_single e st req = (Inr (Some ufile), st1)
      \<and> title_errors (u_title req) = []
      \<and> thumbnailKey_or_null (fst (processImage e st1 (Some (uf_key ufile)) route_options)) = None
      \<and> photo_valid (new_photo uid req ufile None) \<and> Photo st new_id = None"
  obtain pr st2 where p: "processImage e st1 (Some (uf_key ufile)) route_options = (pr, st2)"
    by (cases "processImage e st1 (Some (uf_key ufile)) route_options") auto
  have k: "thumbnailKey_or_null pr = None" using h p by simp
  have "Photo st1 = Photo st" using h by (blast intro: upload_single_Photo)
  moreover have "Photo st2 = Photo st1" using p by (rule processImage_Photo)
  ultimately have fresh: "Photo st2 new_id = None" using h by simp
  show "fst (upload_photo e st uid new_id req)
          = (201, Photo_created new_id (title (new_photo uid req ufile None))
                    (description (new_photo uid req ufile None)) (Some (uf_location ufile)) None)"
    using h p k fresh by (simp add: upload_photo_def Let_def new_photo_def)
  show "Photo (snd (upload_photo e st uid new_id req)) new_id = Some (new_photo uid req ufile None)"
    using h p k fresh by (simp add: upload_photo_def Let_def)
  show "thumbnailS3Key (new_photo uid req ufile None) = None"
    by (simp add: new_photo_def)
next
  assume "fst (processImage e st1 k route_options) = Inl err"
  then show "thumbnailKey_or_null (fst (processImage e st1 k route_options)) = None"
    by (simp add: thumbnailKey_or_null_def)
next
  assume "lambda_send e = invoke_handler lib upload_error
        \<and> snd (fst (handler lib upload_error (processImage_event e k route_options) (s3 st1)))
            = Failure msg"
  then show "thumbnailKey_or_null (fst (processImage e st1 k route_options)) = None"
    by (simp add: processImage_invoke_handler route_options_def thumbnailKey_or_null_def)
next
  assume h: "upload_single_local e st req = (Inr (Some lfile), st2)
      \<and> title_errors (u_title req) = []
      \<and> \<not> fst (generateThumbnail_local lib st2 (lf_path lfile)
                 (''uploads/thumbnails/'' @ ''thumb_'' @ lf_filename lfile))"
  obtain st3 where g: "generateThumbnail_local lib st2 (lf_path lfile)
                 (''uploads/thumbnails/'' @ ''thumb_'' @ lf_filename lfile) = (False, st3)"
    using h by (cases "generateThumbnail_local lib st2 (lf_path lfile)
                 (''uploads/thumbnails/'' @ ''thumb_'' @ lf_filename lfile)") auto
  have r: "upload_photo_local on_error lib legacy_valid e st uid new_id req
            = ((500, Message ''Failed to generate thumbnail''),
               st3\<lparr>disk := (disk st3)(lf_path lfile := None)\<rparr>)"
    using h g by (simp add: upload_photo_local_def Let_def)
  have "Photo st2 = Photo st" using h by (blast intro: upload_single_local_Photo)
  moreover have "Photo st3 = Photo st2" using g by (rule generateThumbnail_local_Photo)
  ultimately have ph: "Photo st3 = Photo st" by simp
  show "fst (upload_photo_local on_error lib legacy_valid e st uid new_id req)
          = (500, Message ''Failed to generate thumbnail'')" by (simp add: r)
  show "Photo (snd (upload_photo_local on_error lib legacy_valid e st uid new_id req)) = Photo st"
    by (simp add: r ph)
  show "disk (snd (upload_photo_local on_error lib legacy_valid e st uid new_id req)) (lf_path lfile)
            = None" by (simp add: r)
qed

text \<open>
  The witness is the upload of a file that the image library cannot decode, behind the
  repository's function: the function answers with a failure, the route answers 201.
\<close>

theorem upload_derivation_failure_witness:
  "snd (fst (handler sharp_rejects None
               (processImage_event (ex_env (invoke_handler sharp_rejects None))
                  (Some ''photos/17-u.jpg'') route_options)
               ((s3 ex_state)(''photos/17-u.jpg'' \<mapsto> [7, 8, 9]))))
     = Failure ''Input buffer contains unsupported image format''
   \<and> fst (upload_photo (ex_env (invoke_handler sharp_rejects None)) ex_state 10 3
          (ex_upload (js ''Sunset'') (ex_file ''image/jpeg'' [7, 8, 9])))
     = (201, Photo_created 3 (js ''Sunset'') [] (Some ''s3://photos/17-u.jpg'') None)
   \<and> map_option thumbnailS3Key
        (Photo (snd (upload_photo (ex_env (invoke_handler sharp_rejects None)) ex_state 10 3
                       (ex_upload (js ''Sunset'') (ex_file ''image/jpeg'' [7, 8, 9])))) 3) = Some None
   \<and> fst (upload_photo_local (error_handler (ex_env send_fails)) sharp_rejects legacy_accepts
            (ex_env send_fails) ex_state 10 3
            (ex_upload (js ''Sunset'') (ex_file ''image/jpeg'' [7, 8, 9])))
       = (500, Message ''Failed to generate thumbnail'')"
proof -
  let ?e = "ex_env (invoke_handler sharp_rejects None)"
  let ?l = "ex_env send_fails"
  let ?req = "ex_upload (js ''Sunset'') (ex_file ''image/jpeg'' [7, 8, 9])"
  let ?ufile = "\<lparr>uf_key = ''photos/17-u.jpg'', uf_location = ''s3://photos/17-u.jpg'',
                uf_originalname = ''sunset.jpg'', uf_mimetype = ''image/jpeg'', uf_size = 3\<rparr>"
  let ?st1 = "ex_state\<lparr>s3 := (s3 ex_state)(''photos/17-u.jpg'' \<mapsto> [7, 8, 9])\<rparr>"
  let ?lfile = "\<lparr>lf_filename = ''17-42.jpg'', lf_path = ''uploads/17-42.jpg'',
                 lf_originalname = ''sunset.jpg'', lf_mimetype = ''image/jpeg'', lf_size = 3\<rparr>"
  let ?st2 = "ex_state\<lparr>disk := (disk ex_state)(''uploads/17-42.jpg'' \<mapsto> [7, 8, 9])\<rparr>"
  let ?msg = "''Input buffer contains unsupported image format''"
  have h1: "upload_single ?e ex_state ?req = (Inr (Some ?ufile), ?st1)"
    by (simp add: upload_single_def ex_upload_def ex_file_def fileFilter_def startsWith_def
        fileSize_limit_def ex_env_def Let_def)
  have h2: "title_errors (u_title ?req) = []"
    by (simp add: title_errors_def ex_upload_def js_def)
  have send: "lambda_send ?e = invoke_handler sharp_rejects None" by (simp add: ex_env_def)
  have fails: "snd (fst (handler sharp_rejects None
                 (processImage_event ?e (Some ''photos/17-u.jpg'') route_options) (s3 ?st1)))
               = Failure ?msg"
    by (simp add: handler_def processImage_event_def route_options_def truthy_def ex_env_def
        sharp_rejects_def Let_def)
  have np: "new_photo 10 ?req ?ufile None =
              \<lparr>title = js ''Sunset'', description = [], filename = ''photos/17-u.jpg'',
               originalName = ''sunset.jpg'', mimetype = ''image/jpeg'', size_p = 3,
               thumbnailPath = None, s3Key = Some ''photos/17-u.jpg'',
               s3Location = Some ''s3://photos/17-u.jpg'', thumbnailS3Key = None,
               processingStatus = Pending, processingError = None, uploadedBy = 10,
               albums = [], views = 0\<rparr>"
    by (simp add: new_photo_def ex_upload_def trim_Sunset trim_Nil)
  have h4: "photo_valid (new_photo 10 ?req ?ufile None)"
    unfolding np by (simp add: photo_valid_def truthy_def js_def)
  have h5: "Photo ex_state 3 = None" by (simp add: ex_state_def)
  note t = upload_derivation_failure [where e = ?e and st = ex_state and req = ?req
      and ufile = ?ufile and ?st1.0 = ?st1 and k = "Some ''photos/17-u.jpg''"
      and lib = sharp_rejects and upload_error = None and msg = ?msg
      and uid = 10 and new_id = 3]
  from t send fails
  have h3: "thumbnailKey_or_null (fst (processImage ?e ?st1 (Some (uf_key ?ufile)) route_options))
              = None"
    by simp
  from t h1 h2 h3 h4 h5
  have a: "fst (upload_photo ?e ex_state 10 3 ?req)
          = (201, Photo_created 3 (title (new_photo 10 ?req ?ufile None))
                    (description (new_photo 10 ?req ?ufile None)) (Some (uf_location ?ufile)) None)"
    and b: "Photo (snd (upload_photo ?e ex_state 10 3 ?req)) 3 = Some (new_photo 10 ?req ?ufile None)"
    by blast+
  have l1: "upload_single_local ?l ex_state ?req = (Inr (Some ?lfile), ?st2)"
    by (simp add: upload_single_local_def ex_upload_def ex_file_def fileFilter_def startsWith_def
        fileSize_limit_def ex_env_def Let_def)
  have l3: "\<not> fst (generateThumbnail_local sharp_rejects ?st2 (lf_path ?lfile)
                 (''uploads/thumbnails/'' @ ''thumb_'' @ lf_filename ?lfile))"
    by (simp add: generateThumbnail_local_def sharp_rejects_def)
  from upload_derivation_failure [where e = ?l and st = ex_state and req = ?req
      and lfile = ?lfile and ?st2.0 = ?st2 and lib = sharp_rejects
      and on_error = "error_handler ?l" and legacy_valid = legacy_accepts
      and uid = 10 and new_id = 3] l1 h2 l3
  have c: "fst (upload_photo_local (error_handler ?l) sharp_rejects legacy_accepts ?l ex_state 10 3 ?req)
          = (500, Message ''Failed to generate thumbnail'')"
    by blast
  from a have a': "fst (upload_photo ?e ex_state 10 3 ?req)
     = (201, Photo_created 3 (js ''Sunset'') [] (Some ''s3://photos/17-u.jpg'') None)"
    unfolding np by simp
  from b have b': "map_option thumbnailS3Key (Photo (snd (upload_photo ?e ex_state 10 3 ?req)) 3)
     = Some None"
    unfolding np by simp
  from fails have f': "snd (fst (handler sharp_rejects None
               (processImage_event ?e (Some ''photos/17-u.jpg'') route_options)
               ((s3 ex_state)(''photos/17-u.jpg'' \<mapsto> [7, 8, 9])))) = Failure ?msg"
    by simp
  from f' a' b' c show ?thesis by blast
qed







text \<open>
  A title of white space only passes the length check, which runs before the trim; the
  handler goes on, and the schema's required title makes \<open>save\<close> fail: status 500, with
  the file's bytes in the bucket.
\<close>

lemma upload_blank_title:
  "title_errors (js '' '') = []
   \<and> fst (fst (upload_photo (ex_env send_fails) ex_state 10 3
                (ex_upload (js '' '') (ex_file ''image/jpeg'' [7, 8, 9])))) = 500
   \<and> s3 (snd (upload_photo (ex_env send_fails) ex_state 10 3
                (ex_upload (js '' '') (ex_file ''image/jpeg'' [7, 8, 9])))) ''photos/17-u.jpg''
       = Some [7, 8, 9]"
  by (simp add: title_errors_def upload_photo_def upload_single_def ex_upload_def ex_file_def
      fileFilter_def startsWith_def fileSize_limit_def ex_env_def ex_state_def Let_def
      processImage_def processImage_event_def send_fails_def new_photo_def photo_valid_def
      thumbnailKey_or_null_def trim_def is_space_def js_def)



lemma getThumbnailKey_a: "getThumbnailKey ''photos/a.jpg'' = ''photos/thumbnails/thumb_a.jpg''"
  by (simp add: getThumbnailKey_def Let_def)


lemma ex_reprocess_event:
  "processImage_event (ex_env (invoke_handler sharp_accepts None)) (Some ''photos/a.jpg'') route_options
     = \<lparr>imageKey = Some ''photos/a.jpg'', bucket = Some ''pixelboard-uploads'',
        options = Some \<lparr>generateThumbnail = Some True,
                        thumbnailSize = Some \<lparr>width = 300, height = 300\<rparr>,
                        quality = Some 80, format = Some ''jpeg'', async = None\<rparr>\<rparr>"
  by (simp add: processImage_event_def route_options_def ex_env_def)

lemma ex_reprocess_handler:
  "handler sharp_accepts None
     (processImage_event (ex_env (invoke_handler sharp_accepts None)) (Some ''photos/a.jpg'')
        route_options)
     (s3 ex_state)
   = ((200, Success \<lparr>r_originalKey = ''photos/a.jpg'',
                     r_metadata = \<lparr>m_width = 640, m_height = 480, m_format = ''jpeg'', m_size = 3\<rparr>,
                     r_thumbnailKey = Some ''photos/thumbnails/thumb_a.jpg'',
                     r_thumbnailMetadata = Some (\<lparr>width = 300, height = 300\<rparr>, ''jpeg'', 80)\<rparr>),
      (s3 ex_state)(''photos/thumbnails/thumb_a.jpg'' \<mapsto> [1]))"
  unfolding ex_reprocess_event
  by (simp add: handler_def truthy_def sharp_accepts_def ex_state_def getThumbnailKey_a
      thumbnailSize_or_default_def format_or_default_def quality_or_default_def Let_def)

lemma ex_reprocess_run:
  "reprocess_photo (ex_env (invoke_handler sharp_accepts None)) ex_state 10 1
     = ((200, Reprocessed None),
        ex_state\<lparr>s3 := (s3 ex_state)(''photos/thumbnails/thumb_a.jpg'' \<mapsto> [1]),
                 Photo := (Photo ex_state)
                   (1 \<mapsto> (ex_photo 10 ''photos/a.jpg'' (Some ''photos/thumbnails/thumb_a.jpg'') [5])
                           \<lparr>thumbnailS3Key := None\<rparr>)\<rparr>)"
proof -
  let ?e = "ex_env (invoke_handler sharp_accepts None)"
  let ?ph = "ex_photo 10 ''photos/a.jpg'' (Some ''photos/thumbnails/thumb_a.jpg'') [5]"
  have send: "lambda_send ?e = invoke_handler sharp_accepts None" by (simp add: ex_env_def)
  have sync: "async route_options \<noteq> Some True" by (simp add: route_options_def)
  have p: "processImage ?e ex_state (Some ''photos/a.jpg'') route_options
             = (Inr \<lparr>success = True, is_async = False, originalKey = Some ''photos/a.jpg'',
                     thumbnailKey = None\<rparr>,
                ex_state\<lparr>s3 := (s3 ex_state)(''photos/thumbnails/thumb_a.jpg'' \<mapsto> [1])\<rparr>)"
    by (simp add: processImage_invoke_handler [OF send sync] ex_reprocess_handler)
  have own: "uploadedBy ?ph = 10" and key: "s3Key ?ph = Some ''photos/a.jpg''"
    by (simp_all add: ex_photo_def)
  have valid: "photo_valid (?ph\<lparr>thumbnailS3Key := None\<rparr>)"
    by (simp add: photo_valid_def ex_photo_def truthy_def js_def)
  have "reprocess_photo ?e ex_state 10 1
          = (case Photo ex_state 1 of
               None \<Rightarrow> ((404, Message ''Photo not found''), ex_state)
             | Some ph \<Rightarrow>
                 if uploadedBy ph \<noteq> 10
                 then ((403, Message ''Not authorized to reprocess this photo''), ex_state)
                 else
                   (case processImage ?e ex_state (s3Key ph) route_options of
                      (Inl err, st1) \<Rightarrow> ((500, Message ''Failed to reprocess photo''), st1)
                    | (Inr processingResult, st1) \<Rightarrow>
                        let ph' = ph\<lparr>thumbnailS3Key := thumbnailKey processingResult\<rparr> in
                        if \<not> photo_valid ph'
                        then ((500, Message ''Failed to reprocess photo''), st1)
                        else ((200, Reprocessed (thumbnailS3Key ph')),
                              st1\<lparr>Photo := (Photo st1)(1 \<mapsto> ph')\<rparr>)))"
    by (simp only: reprocess_photo_def)
  also have "\<dots> = ((200, Reprocessed None),
        ex_state\<lparr>s3 := (s3 ex_state)(''photos/thumbnails/thumb_a.jpg'' \<mapsto> [1]),
                 Photo := (Photo ex_state)(1 \<mapsto> ?ph\<lparr>thumbnailS3Key := None\<rparr>)\<rparr>)"
    unfolding ex_state_Photo_1 by (simp add: own key p valid Let_def)
  finally show ?thesis .
qed


text \<open>
  Behind the invocation service the route does not find the derived key, which is inside
  \<open>body\<close> and not at the top of the payload: the reprocess above is answered without
  a key, and the record has none afterward.
\<close>

lemma reprocess_erases_key:
  "fst (reprocess_photo (ex_env (invoke_handler sharp_accepts None)) ex_state 10 1)
     = (200, Reprocessed None)
   \<and> map_option thumbnailS3Key
       (Photo (snd (reprocess_photo (ex_env (invoke_handler sharp_accepts None)) ex_state 10 1)) 1)
     = Some None"
  unfolding ex_reprocess_run by simp



section \<open>Properties of the thumbnail derivation\<close>

text \<open>
  C8 as stated fails for the empty format and for the quality 0, which the function
  replaces by its defaults: the format \<open>''''\<close> is neither "jpeg" nor "png", yet the
  image is encoded as JPEG, and with quality 80 where 0 was requested.
\<close>

theorem thumbnail_ops_empty_format:
  "[] \<noteq> ''jpeg'' \<and> [] \<noteq> ''png''
   \<and> thumbnail_ops \<lparr>generateThumbnail = None, thumbnailSize = None, quality = Some 0,
                     format = Some [], async = None\<rparr>
       = [Resize 300 300 Cover Center, Jpeg 80]"
  by (simp add: thumbnail_ops_def thumbnailSize_or_default_def quality_or_default_def
      format_or_default_def)

text \<open>
  C8, amended. Whenever the function produces a thumbnail, the object stored under the
  thumbnail key is the original passed through the calls of \<open>thumbnail_ops\<close>. These
  begin in every case with a resize to the target dimensions (300 by 300 when none are
  given) with cover fit, centered. For the format "jpeg", and for an empty or absent
  format, a JPEG encoding follows; for "png", a PNG encoding; for any other non-empty
  format, nothing follows. The encoding quality is the requested one, and 80 when the
  quality is absent or 0.
\<close>

theorem thumbnail_encoding:
  "(handler lib upload_error event store = ((200, Success res), store')
      \<and> r_thumbnailKey res = Some k \<and> options event = Some opts
    \<longrightarrow> (\<exists>image thumb. store (the (imageKey event)) = Some image
            \<and> toBuffer lib image (thumbnail_ops opts) = Inr thumb
            \<and> store' k = Some thumb))
   \<and> (format opts = Some ''jpeg'' \<or> format opts = Some [] \<or> format opts = None
    \<longrightarrow> thumbnail_ops opts
          = [Resize (width (thumbnailSize_or_default opts)) (height (thumbnailSize_or_default opts))
               Cover Center, Jpeg (quality_or_default opts)])
   \<and> (format opts = Some ''png''
    \<longrightarrow> thumbnail_ops opts
          = [Resize (width (thumbnailSize_or_default opts)) (height (thumbnailSize_or_default opts))
               Cover Center, Png (quality_or_default opts)])
   \<and> (format opts = Some f \<and> f \<noteq> [] \<and> f \<noteq> ''jpeg'' \<and> f \<noteq> ''png''
    \<longrightarrow> thumbnail_ops opts
          = [Resize (width (thumbnailSize_or_default opts)) (height (thumbnailSize_or_default opts))
               Cover Center])
   \<and> (thumbnailSize opts = Some d \<longrightarrow> thumbnailSize_or_default opts = d)
   \<and> (thumbnailSize opts = None \<longrightarrow> thumbnailSize_or_default opts = \<lparr>width = 300, height = 300\<rparr>)
   \<and> (quality opts = Some q \<and> q \<noteq> 0 \<longrightarrow> quality_or_default opts = q)
   \<and> (quality opts = None \<or> quality opts = Some 0 \<longrightarrow> quality_or_default opts = 80)"
proof (intro conjI impI)
  assume "handler lib upload_error event store = ((200, Success res), store')
      \<and> r_thumbnailKey res = Some k \<and> options event = Some opts"
  then show "\<exists>image thumb. store (the (imageKey event)) = Some image
            \<and> toBuffer lib image (thumbnail_ops opts) = Inr thumb
            \<and> store' k = Some thumb"
    by (auto simp: handler_def Let_def split: if_splits option.splits sum.splits)
qed (auto simp: thumbnail_ops_def thumbnailSize_or_default_def quality_or_default_def
      format_or_default_def Let_def)


theorem thumbnail_encoding_witness:
  "thumbnail_ops \<lparr>generateThumbnail = None, thumbnailSize = Some \<lparr>width = 100, height = 50\<rparr>,
                   quality = Some 90, format = Some ''webp'', async = None\<rparr>
     = [Resize 100 50 Cover Center]
   \<and> thumbnail_ops \<lparr>generateThumbnail = None, thumbnailSize = Some \<lparr>width = 100, height = 50\<rparr>,
                     quality = Some 90, format = Some ''png'', async = None\<rparr>
     = [Resize 100 50 Cover Center, Png 90]
   \<and> thumbnail_ops \<lparr>generateThumbnail = None, thumbnailSize = None,
                     quality = None, format = None, async = None\<rparr>
     = [Resize 300 300 Cover Center, Jpeg 80]
   \<and> snd (handler sharp_accepts None
            \<lparr>imageKey = Some ''photos/a.jpg'', bucket = Some ''pixelboard-uploads'',
             options = Some \<lparr>generateThumbnail = None, thumbnailSize = None,
                             quality = None, format = None, async = None\<rparr>\<rparr>
            (s3 ex_state)) ''photos/thumbnails/thumb_a.jpg''
     = Some [1]"
proof -
  let ?webp = "\<lparr>generateThumbnail = None, thumbnailSize = Some \<lparr>width = 100, height = 50\<rparr>,
                quality = Some 90, format = Some ''webp'', async = None\<rparr>"
  let ?png = "\<lparr>generateThumbnail = None, thumbnailSize = Some \<lparr>width = 100, height = 50\<rparr>,
               quality = Some 90, format = Some ''png'', async = None\<rparr>"
  let ?none = "\<lparr>generateThumbnail = None, thumbnailSize = None,
                quality = None, format = None, async = None\<rparr>"
  let ?event = "\<lparr>imageKey = Some ''photos/a.jpg'', bucket = Some ''pixelboard-uploads'',
                 options = Some ?none\<rparr>"
  let ?res = "\<lparr>r_originalKey = ''photos/a.jpg'',
               r_metadata = \<lparr>m_width = 640, m_height = 480, m_format = ''jpeg'', m_size = 3\<rparr>,
               r_thumbnailKey = Some ''photos/thumbnails/thumb_a.jpg'',
               r_thumbnailMetadata = Some (\<lparr>width = 300, height = 300\<rparr>, ''jpeg'', 80)\<rparr>"
  have a: "thumbnail_ops ?webp = [Resize 100 50 Cover Center]"
    using thumbnail_encoding [where opts = ?webp and f = "''webp''" and q = 90
        and d = "\<lparr>width = 100, height = 50\<rparr>"]
    by simp
  have b: "thumbnail_ops ?png = [Resize 100 50 Cover Center, Png 90]"
    using thumbnail_encoding [where opts = ?png and q = 90 and d = "\<lparr>width = 100, height = 50\<rparr>"]
    by simp
  have c: "thumbnail_ops ?none = [Resize 300 300 Cover Center, Jpeg 80]"
    using thumbnail_encoding [where opts = ?none]
    by simp
  have run: "handler sharp_accepts None ?event (s3 ex_state)
               = ((200, Success ?res), (s3 ex_state)(''photos/thumbnails/thumb_a.jpg'' \<mapsto> [1]))"
    by (simp add: handler_def truthy_def sharp_accepts_def ex_state_def getThumbnailKey_a
        thumbnailSize_or_default_def format_or_default_def quality_or_default_def Let_def)
  have k: "r_thumbnailKey ?res = Some ''photos/thumbnails/thumb_a.jpg''" by simp
  have o: "options ?event = Some ?none" by simp
  from thumbnail_encoding [where lib = sharp_accepts and upload_error = None and event = ?event
      and store = "s3 ex_state" and res = ?res
      and store' = "(s3 ex_state)(''photos/thumbnails/thumb_a.jpg'' \<mapsto> [1])"
      and k = "''photos/thumbnails/thumb_a.jpg''" and opts = ?none] run k o
  obtain image thumb where i: "s3 ex_state (the (imageKey ?event)) = Some image"
    and t: "toBuffer sharp_accepts image (thumbnail_ops ?none) = Inr thumb"
    and s: "((s3 ex_state)(''photos/thumbnails/thumb_a.jpg'' \<mapsto> [1])) ''photos/thumbnails/thumb_a.jpg''
              = Some thumb"
    by blast
  from i have "image = [1, 2, 3]" by (simp add: ex_state_def)
  with t have "thumb = [1]" by (simp add: sharp_accepts_def)
  with s run have d: "snd (handler sharp_accepts None ?event (s3 ex_state))
                        ''photos/thumbnails/thumb_a.jpg'' = Some [1]"
    by simp
  from a b c d show ?thesis by blast
qed


section \<open>Invariants of the Photo records\<close>

lemma updateMany_push_Photo:
  "Photo (updateMany_push st ids aid) pid = Some p' \<Longrightarrow>
   \<exists>p. Photo st pid = Some p \<and> processingStatus p' = processingStatus p
       \<and> uploadedBy p' = uploadedBy p \<and> thumbnailS3Key p' = thumbnailS3Key p"
  by (auto simp: updateMany_push_def split: if_splits)

lemma updateMany_pull_Photo:
  "Photo (updateMany_pull st ids aid) pid = Some p' \<Longrightarrow>
   \<exists>p. Photo st pid = Some p \<and> processingStatus p' = processingStatus p
       \<and> uploadedBy p' = uploadedBy p \<and> thumbnailS3Key p' = thumbnailS3Key p"
  by (auto simp: updateMany_pull_def split: if_splits)

lemma create_album_Photo:
  "Photo (snd (create_album st uid new_id req)) pid = Some p' \<Longrightarrow>
   \<exists>p. Photo st pid = Some p \<and> processingStatus p' = processingStatus p
       \<and> uploadedBy p' = uploadedBy p \<and> thumbnailS3Key p' = thumbnailS3Key p"
  by (auto simp: create_album_def Let_def split: if_splits option.splits
      dest!: updateMany_push_Photo)

lemma add_photos_Photo:
  "Photo (snd (add_photos st uid aid ids)) pid = Some p' \<Longrightarrow>
   \<exists>p. Photo st pid = Some p \<and> processingStatus p' = processingStatus p
       \<and> uploadedBy p' = uploadedBy p \<and> thumbnailS3Key p' = thumbnailS3Key p"
  by (auto simp: add_photos_def Let_def split: if_splits option.splits
      dest!: updateMany_push_Photo)

lemma remove_photos_Photo:
  "Photo (snd (remove_photos st uid aid ids)) pid = Some p' \<Longrightarrow>
   \<exists>p. Photo st pid = Some p \<and> processingStatus p' = processingStatus p
       \<and> uploadedBy p' = uploadedBy p \<and> thumbnailS3Key p' = thumbnailS3Key p"
  by (auto simp: remove_photos_def Let_def split: if_splits option.splits
      dest!: updateMany_pull_Photo)

lemma delete_album_Photo:
  "Photo (snd (delete_album st uid aid)) pid = Some p' \<Longrightarrow>
   \<exists>p. Photo st pid = Some p \<and> processingStatus p' = processingStatus p
       \<and> uploadedBy p' = uploadedBy p \<and> thumbnailS3Key p' = thumbnailS3Key p"
  by (auto simp: delete_album_def Let_def split: if_splits option.splits
      dest!: updateMany_pull_Photo)

lemma deleteFromS3_Photo [simp]: "Photo (snd (deleteFromS3 e st k)) = Photo st"
  by (simp add: deleteFromS3_def split: option.splits)

lemma delete_photo_Photo:
  "Photo (snd (delete_photo e st uid pid')) pid = Some p' \<Longrightarrow> Photo st pid = Some p'"
  by (auto simp: delete_photo_def Let_def deleteFromS3_def
      split: if_splits option.splits prod.splits sum.splits)

lemma reprocess_photo_Photo:
  assumes "Photo (snd (reprocess_photo e st uid pid')) pid = Some p'"
  shows "\<exists>p. Photo st pid = Some p \<and> processingStatus p' = processingStatus p
           \<and> uploadedBy p' = uploadedBy p
           \<and> (thumbnailS3Key p' = thumbnailS3Key p
                \<or> (\<exists>st0 key r. fst (processImage e st0 key route_options) = Inr r
                      \<and> thumbnailKey r = thumbnailS3Key p'))"
proof (cases "Photo st pid'")
  case None
  then show ?thesis using assms by (simp add: reprocess_photo_def)
next
  case (Some ph)
  obtain pr st1 where p: "processImage e st (s3Key ph) route_options = (pr, st1)"
    by (cases "processImage e st (s3Key ph) route_options") auto
  have st1: "Photo st1 = Photo st" using p by (rule processImage_Photo)
  show ?thesis
  proof (cases pr)
    case (Inl err)
    then show ?thesis using assms Some p st1
      by (auto simp: reprocess_photo_def split: if_splits)
  next
    case (Inr r)
    have "fst (processImage e st (s3Key ph) route_options) = Inr r" using p Inr by simp
    then have ex: "\<exists>st0 key r'. fst (processImage e st0 key route_options) = Inr r'
                      \<and> thumbnailKey r' = thumbnailKey r"
      by blast
    show ?thesis
    proof (cases "pid = pid' \<and> uploadedBy ph = uid \<and> photo_valid (ph\<lparr>thumbnailS3Key := thumbnailKey r\<rparr>)")
      case True
      then have "p' = ph\<lparr>thumbnailS3Key := thumbnailKey r\<rparr>"
        using assms Some p Inr by (simp add: reprocess_photo_def Let_def)
      then show ?thesis using True Some ex by simp
    next
      case False
      then show ?thesis using assms Some p st1 Inr
        by (auto simp: reprocess_photo_def Let_def split: if_splits)
    qed
  qed
qed

lemma upload_photo_Photo:
  assumes "Photo (snd (upload_photo e st uid new_id req)) pid = Some p'"
  shows "Photo st pid = Some p'
         \<or> (Photo st pid = None \<and> processingStatus p' = Pending
             \<and> (thumbnailS3Key p' = None
                  \<or> (\<exists>st0 key r. fst (processImage e st0 key route_options) = Inr r
                        \<and> thumbnailKey r = thumbnailS3Key p')))"
proof -
  obtain u st1 where us: "upload_single e st req = (u, st1)"
    by (cases "upload_single e st req") auto
  have st1: "Photo st1 = Photo st" using us by (rule upload_single_Photo)
  show ?thesis
  proof (cases u)
    case (Inl err)
    then show ?thesis using assms us st1 by (simp add: upload_photo_def)
  next
    case (Inr file_opt)
    show ?thesis
    proof (cases file_opt)
      case None
      then show ?thesis using assms us st1 Inr by (simp add: upload_photo_def split: if_splits)
    next
      case (Some ufile)
      obtain pr st2 where p: "processImage e st1 (Some (uf_key ufile)) route_options = (pr, st2)"
        by (cases "processImage e st1 (Some (uf_key ufile)) route_options") auto
      have st2: "Photo st2 = Photo st" using p st1 by (simp add: processImage_Photo)
      have f: "fst (processImage e st1 (Some (uf_key ufile)) route_options) = pr" using p by simp
      show ?thesis
      proof (cases "title_errors (u_title req) = []
                      \<and> photo_valid (new_photo uid req ufile
                            (thumbnailKey_or_null pr))
                      \<and> Photo st new_id = None \<and> pid = new_id")
        case False
        then show ?thesis using assms us Inr Some p st1 st2
          by (auto simp: upload_photo_def Let_def split: if_splits)
      next
        case True
        then have p': "p' = new_photo uid req ufile
                            (thumbnailKey_or_null pr)"
          using assms us Inr Some p st2 by (simp add: upload_photo_def Let_def)
        have "thumbnailS3Key p' = None
                  \<or> (\<exists>st0 key r. fst (processImage e st0 key route_options) = Inr r
                        \<and> thumbnailKey r = thumbnailS3Key p')"
        proof (cases pr)
          case (Inl err)
          then show ?thesis by (simp add: p' new_photo_def thumbnailKey_or_null_def)
        next
          case r: (Inr r)
          then have "fst (processImage e st1 (Some (uf_key ufile)) route_options) = Inr r
                       \<and> thumbnailKey r = thumbnailS3Key p'"
            using f by (simp add: p' new_photo_def thumbnailKey_or_null_def)
          then show ?thesis by blast
        qed
        moreover have "processingStatus p' = Pending" by (simp add: p' new_photo_def)
        ultimately show ?thesis using True by simp
      qed
    qed
  qed
qed


lemma step_Photo_kept:
  assumes "Photo st pid = Some p" and "Photo (snd (step e st op)) pid = Some p'"
  shows "processingStatus p' = processingStatus p \<and> uploadedBy p' = uploadedBy p
         \<and> (thumbnailS3Key p' = thumbnailS3Key p
              \<or> (\<exists>st0 key r. fst (processImage e st0 key route_options) = Inr r
                    \<and> thumbnailKey r = thumbnailS3Key p'))"
proof (cases op)
  case (Upload uid new_id req)
  then show ?thesis using assms upload_photo_Photo [of e st uid new_id req pid p'] by auto
next
  case (Get_photo x)
  then show ?thesis using assms by simp
next
  case (Delete_photo uid pid')
  then show ?thesis using assms delete_photo_Photo [of e st uid pid' pid p'] by auto
next
  case (Reprocess uid pid')
  then show ?thesis using assms reprocess_photo_Photo [of e st uid pid' pid p'] by auto
next
  case (Create_album uid new_id req)
  then show ?thesis using assms create_album_Photo [of st uid new_id req pid p'] by auto
next
  case (Add_photos uid aid ids)
  then show ?thesis using assms add_photos_Photo [of st uid aid ids pid p'] by auto
next
  case (Remove_photos uid aid ids)
  then show ?thesis using assms remove_photos_Photo [of st uid aid ids pid p'] by auto
next
  case (Delete_album uid aid)
  then show ?thesis using assms delete_album_Photo [of st uid aid pid p'] by auto
qed

lemma step_Photo_created:
  assumes "Photo st pid = None" and "Photo (snd (step e st op)) pid = Some p'"
  shows "processingStatus p' = Pending
         \<and> (thumbnailS3Key p' = None
              \<or> (\<exists>st0 key r. fst (processImage e st0 key route_options) = Inr r
                    \<and> thumbnailKey r = thumbnailS3Key p'))"
proof (cases op)
  case (Upload uid new_id req)
  then show ?thesis using assms upload_photo_Photo [of e st uid new_id req pid p'] by auto
next
  case (Get_photo x)
  then show ?thesis using assms by simp
next
  case (Delete_photo uid pid')
  then show ?thesis using assms delete_photo_Photo [of e st uid pid' pid p'] by auto
next
  case (Reprocess uid pid')
  then show ?thesis using assms reprocess_photo_Photo [of e st uid pid' pid p'] by auto
next
  case (Create_album uid new_id req)
  then show ?thesis using assms create_album_Photo [of st uid new_id req pid p'] by auto
next
  case (Add_photos uid aid ids)
  then show ?thesis using assms add_photos_Photo [of st uid aid ids pid p'] by auto
next
  case (Remove_photos uid aid ids)
  then show ?thesis using assms remove_photos_Photo [of st uid aid ids pid p'] by auto
next
  case (Delete_album uid aid)
  then show ?thesis using assms delete_album_Photo [of st uid aid pid p'] by auto
qed

text \<open>
  C9. The processing status of a record is one of the four values of the schema. Across
  every operation, a record that exists before and after has the status it had (so no
  transition other than pending to processing to completed or failed takes place) and
  the owner it had; a record the operation creates is pending. A thumbnail key that a
  record did not have before the operation is the thumbnail key of a processing result
  that the image processing returned without error.
\<close>

theorem photo_invariants:
  assumes "step e st op = (resp, st')"
  shows "(\<forall>pid p p'. Photo st pid = Some p \<and> Photo st' pid = Some p' \<longrightarrow>
            processingStatus p' \<in> {Pending, Processing, Completed, Failed}
            \<and> (processingStatus p' = processingStatus p
                \<or> spec_status_transition (processingStatus p) (processingStatus p'))
            \<and> uploadedBy p' = uploadedBy p
            \<and> (\<forall>k. thumbnailS3Key p' = Some k \<and> thumbnailS3Key p \<noteq> Some k \<longrightarrow>
                  (\<exists>st0 key r. fst (processImage e st0 key route_options) = Inr r
                     \<and> thumbnailKey r = Some k)))
         \<and> (\<forall>pid p'. Photo st pid = None \<and> Photo st' pid = Some p' \<longrightarrow>
            processingStatus p' = Pending
            \<and> (\<forall>k. thumbnailS3Key p' = Some k \<longrightarrow>
                  (\<exists>st0 key r. fst (processImage e st0 key route_options) = Inr r
                     \<and> thumbnailKey r = Some k)))"
proof -
  have st': "st' = snd (step e st op)" using assms by simp
  have all: "x \<in> {Pending, Processing, Completed, Failed}" for x
    by (cases x) simp_all
  show ?thesis
  proof (intro conjI allI impI)
    fix pid p p'
    assume h: "Photo st pid = Some p \<and> Photo st' pid = Some p'"
    then have k: "processingStatus p' = processingStatus p \<and> uploadedBy p' = uploadedBy p
         \<and> (thumbnailS3Key p' = thumbnailS3Key p
              \<or> (\<exists>st0 key r. fst (processImage e st0 key route_options) = Inr r
                    \<and> thumbnailKey r = thumbnailS3Key p'))"
      using step_Photo_kept [of st pid p e op p'] st' by simp
    show "processingStatus p' \<in> {Pending, Processing, Completed, Failed}" by (rule all)
    show "processingStatus p' = processingStatus p
                \<or> spec_status_transition (processingStatus p) (processingStatus p')"
      using k by simp
    show "uploadedBy p' = uploadedBy p" using k by simp
    fix k'
    assume "thumbnailS3Key p' = Some k' \<and> thumbnailS3Key p \<noteq> Some k'"
    then show "\<exists>st0 key r. fst (processImage e st0 key route_options) = Inr r
                     \<and> thumbnailKey r = Some k'"
      using k by auto
  next
    fix pid p'
    assume h: "Photo st pid = None \<and> Photo st' pid = Some p'"
    then have k: "processingStatus p' = Pending
         \<and> (thumbnailS3Key p' = None
              \<or> (\<exists>st0 key r. fst (processImage e st0 key route_options) = Inr r
                    \<and> thumbnailKey r = thumbnailS3Key p'))"
      using step_Photo_created [of st pid e op p'] st' by simp
    show "processingStatus p' = Pending" using k by simp
    fix k'
    assume "thumbnailS3Key p' = Some k'"
    then show "\<exists>st0 key r. fst (processImage e st0 key route_options) = Inr r
                     \<and> thumbnailKey r = Some k'"
      using k by auto
  qed
qed

lemma ex_upload_step:
  "Photo (snd (step (ex_env (invoke_handler sharp_accepts None)) ex_state
                 (Upload 10 3 (ex_upload (js ''Sunset'') (ex_file ''image/jpeg'' [7, 8, 9]))))) 3
     = Some \<lparr>title = js ''Sunset'', description = [], filename = ''photos/17-u.jpg'',
               originalName = ''sunset.jpg'', mimetype = ''image/jpeg'', size_p = 3,
               thumbnailPath = None, s3Key = Some ''photos/17-u.jpg'',
               s3Location = Some ''s3://photos/17-u.jpg'',
               thumbnailS3Key = None,
               processingStatus = Pending, processingError = None, uploadedBy = 10,
               albums = [], views = 0\<rparr>"
proof -
  let ?e = "ex_env (invoke_handler sharp_accepts None)"
  have send: "lambda_send ?e = invoke_handler sharp_accepts None" by (simp add: ex_env_def)
  have sync: "async route_options \<noteq> Some True" by (simp add: route_options_def)
  have fields: "now ?e = ''17''" "uuid ?e = ''u''" "extname ?e ''sunset.jpg'' = ''.jpg''"
    "s3_put_error ?e = None" "s3_location ?e ''photos/17-u.jpg'' = ''s3://photos/17-u.jpg''"
    "dynamo_fails ?e = False"
    by (simp_all add: ex_env_def)
  show ?thesis
    by (simp add: upload_photo_def upload_single_def ex_upload_def ex_file_def fileFilter_def
        startsWith_def fileSize_limit_def fields ex_state_def Let_def title_errors_def
        processImage_invoke_handler [OF send sync] thumbnailKey_or_null_def new_photo_def
        photo_valid_def truthy_def trim_def is_space_def js_def logActivity_def)
qed

lemma ex_upload_fresh: "Photo ex_state 3 = None"
  by (simp add: ex_state_def)

theorem photo_invariants_witness:
  "map_option processingStatus
     (Photo (snd (step (ex_env (invoke_handler sharp_accepts None)) ex_state
                    (Upload 10 3 (ex_upload (js ''Sunset'') (ex_file ''image/jpeg'' [7, 8, 9]))))) 3)
     = Some Pending
   \<and> map_option uploadedBy
       (Photo (snd (step (ex_env (invoke_handler sharp_accepts None)) ex_state
                      (Add_photos 10 6 (Some [1])))) 1)
     = Some 10"
proof -
  let ?e = "ex_env (invoke_handler sharp_accepts None)"
  let ?up = "Upload 10 3 (ex_upload (js ''Sunset'') (ex_file ''image/jpeg'' [7, 8, 9]))"
  let ?p' = "\<lparr>title = js ''Sunset'', description = [], filename = ''photos/17-u.jpg'',
               originalName = ''sunset.jpg'', mimetype = ''image/jpeg'', size_p = 3,
               thumbnailPath = None, s3Key = Some ''photos/17-u.jpg'',
               s3Location = Some ''s3://photos/17-u.jpg'',
               thumbnailS3Key = None,
               processingStatus = Pending, processingError = None, uploadedBy = 10,
               albums = [], views = 0\<rparr>"
  let ?ph = "ex_photo 10 ''photos/a.jpg'' (Some ''photos/thumbnails/thumb_a.jpg'') [5]"
  have run1: "step ?e ex_state ?up = (fst (step ?e ex_state ?up), snd (step ?e ex_state ?up))"
    by simp
  from photo_invariants [OF run1] ex_upload_fresh ex_upload_step
  have a: "processingStatus ?p' = Pending
            \<and> (\<forall>k. thumbnailS3Key ?p' = Some k \<longrightarrow>
                  (\<exists>st0 key r. fst (processImage ?e st0 key route_options) = Inr r
                     \<and> thumbnailKey r = Some k))"
    by blast
  have c: "map_option processingStatus (Photo (snd (step ?e ex_state ?up)) 3) = Some Pending"
    using a by (subst ex_upload_step) simp
  let ?add = "Add_photos 10 6 (Some [1])"
  have run2: "step ?e ex_state ?add = (fst (step ?e ex_state ?add), snd (step ?e ex_state ?add))"
    by simp
  have after: "Photo (snd (step ?e ex_state ?add)) 1 = Some (?ph\<lparr>albums := [5, 6]\<rparr>)"
    by (simp add: add_photos_def find_owned_def List.map_filter_def ex_state_def ex_photo_def
        updateMany_push_def Let_def)
  from photo_invariants [OF run2] ex_state_Photo_1 after
  have "uploadedBy (?ph\<lparr>albums := [5, 6]\<rparr>) = uploadedBy ?ph" by blast
  then have d: "map_option uploadedBy (Photo (snd (step ?e ex_state ?add)) 1) = Some 10"
    by (subst after) (simp add: ex_photo_def)
  from c d show ?thesis by blast
qed

end
